theory Spec2Isabelle
  imports Complex_Main
begin

section \<open>BarrierLite remote session screen: a shallow embedding\<close>

text \<open>
  The definitions below follow the \<open>Remote\<close> component of
  \<open>src/app/(tabs)/iot.tsx\<close> (the remote-session screen) and the mock
  key-encapsulation object of \<open>src/app/src/crypto/kyber.ts\<close>.
  React state variables and refs are the fields of one record; every handler
  is a function from the record to the updated record.  Calls that leave the
  component (alerts, speech, vibration, the event log, socket emits, HTTP
  requests) are appended to the \<open>effects\<close> trace in program order.  An
  asynchronous handler is run to completion in one step, except the relay
  request and the latency sample, which are split at their \<open>await\<close> into the
  request and the arrival of the response.

  A function created during a render reads the state variables of that
  render.  The button handlers belong to the latest render, so they read the
  current state.  The callbacks registered by the mount effect and by
  \<open>startWebRTC\<close> outlive their render: what they read of the state is kept
  with them, in a \<open>closure\<close> or in the fields of the peer connection.  Refs
  are always read as they are now.
\<close>

subsection \<open>JavaScript numbers and strings\<close>

text \<open>
  Doubles.  \<open>to_double x\<close> is the double nearest to the real number \<open>x\<close>
  (53 significant bits, ties to the even significand); it is the identity on
  doubles.  The exponent range is not modelled: results are exact for doubles
  in the normal range, where every number of this screen lies.
\<close>

fun nbits :: "nat \<Rightarrow> nat" where
  "nbits n = (if n = 0 then 0 else Suc (nbits (n div 2)))"

text \<open>The integer part of the binary logarithm of a positive number.\<close>

definition ilog2 :: "real \<Rightarrow> int" where
  "ilog2 x = (if 1 \<le> x then int (nbits (nat \<lfloor>x\<rfloor>)) - 1
              else - int (nbits (nat (\<lceil>1 / x\<rceil> - 1))))"

definition pow2 :: "int \<Rightarrow> real" where
  "pow2 k = (if 0 \<le> k then 2 ^ nat k else 1 / 2 ^ nat (- k))"

definition round_half_even :: "real \<Rightarrow> int" where
  "round_half_even x =
     (if x - of_int \<lfloor>x\<rfloor> < 1 / 2 then \<lfloor>x\<rfloor>
      else if 1 / 2 < x - of_int \<lfloor>x\<rfloor> then \<lfloor>x\<rfloor> + 1
      else if even \<lfloor>x\<rfloor> then \<lfloor>x\<rfloor> else \<lfloor>x\<rfloor> + 1)"

definition to_double :: "real \<Rightarrow> real" where
  "to_double x =
     (if x = 0 then 0
      else of_int (round_half_even (x / pow2 (ilog2 \<bar>x\<bar> - 52))) * pow2 (ilog2 \<bar>x\<bar> - 52))"

text \<open>
  A JavaScript number is \<open>NaN\<close> or a double.  The double is written as a real
  number and read through \<open>to_double\<close>, so that a decimal of the source or of
  a sample input, such as \<open>0.8\<close>, stands for the double the engine holds for
  it.  Every comparison with \<open>NaN\<close> is false; quotients and products are
  rounded to doubles.
\<close>

datatype jsnum = NaN | Num real

fun js_gt :: "jsnum \<Rightarrow> real \<Rightarrow> bool" where
  "js_gt NaN t = False"
| "js_gt (Num x) t = (to_double x > to_double t)"

fun js_lt :: "jsnum \<Rightarrow> real \<Rightarrow> bool" where
  "js_lt NaN t = False"
| "js_lt (Num x) t = (to_double x < to_double t)"

fun js_div :: "jsnum \<Rightarrow> real \<Rightarrow> jsnum" where
  "js_div NaN d = NaN"
| "js_div (Num x) d = Num (to_double (to_double x / to_double d))"

text \<open>\<open>v || 0\<close> for a number that may be absent: absent, \<open>NaN\<close> and \<open>0\<close> all give \<open>0\<close>.\<close>

fun js_or_zero :: "jsnum option \<Rightarrow> jsnum" where
  "js_or_zero None = Num 0"
| "js_or_zero (Some NaN) = Num 0"
| "js_or_zero (Some (Num x)) = Num x"

text \<open>
  \<open>Math.round\<close> of a double: the nearest integer, halves rounded towards plus
  infinity; the function is exact.
\<close>

definition Math_round :: "real \<Rightarrow> int" where
  "Math_round x = \<lfloor>x + 1 / 2\<rfloor>"

text \<open>
  \<open>String.prototype.trim\<close> on a string of one-byte characters: tab, line feed,
  vertical tab, form feed, carriage return, space and no-break space are removed
  from both ends.
\<close>

definition is_ws :: "char \<Rightarrow> bool" where
  "is_ws c = (of_char c \<in> {9, 10, 11, 12, 13, 32, 160 :: nat})"

definition trim :: "string \<Rightarrow> string" where
  "trim s = rev (dropWhile is_ws (rev (dropWhile is_ws s)))"

subsection \<open>The environment of a handler call\<close>

datatype platform = Web | Android | Ios

datatype js_error = Thrown string

text \<open>
  \<open>DiagnosticResult\<close> of \<open>DiagnosticsContext.tsx\<close>, reduced to the two fields the
  screen reads: \<open>ram\<close>, and \<open>cpu\<close> after \<open>parseFloat(cpu.replace('%', ''))\<close>.
\<close>

record diagnostic_result =
  ram :: jsnum
  cpu_parsed :: jsnum

record media_stream =
  track_count :: nat

record stats_report =
  report_type :: string
  report_state :: string
  currentRoundTripTime :: "real option"

text \<open>
  What the platform answers during one handler call: the diagnostics context,
  the results of the \<open>DeviceInfo\<close> promises (\<open>Inl\<close> when the call throws or the
  promise rejects), of \<open>getUserMedia\<close>, \<open>createOffer\<close>, \<open>createAnswer\<close>,
  \<open>getStats\<close> and of the \<open>AsyncStorage\<close> write of \<open>logSessionLocal\<close>, whether
  \<open>setRemoteDescription\<close> or the \<open>send\<close> of the data channel throws, and the
  clock.
\<close>

record env =
  platformOS :: platform
  diagnostics :: "diagnostic_result option"
  thermalWarning :: bool
  getTotalRamMb :: "js_error + jsnum"
  getBatteryLevelAsync :: "js_error + jsnum"
  getUserMedia :: "js_error + media_stream"
  createOffer :: "js_error + string"
  createAnswer :: "js_error + string"
  setRemoteDescription :: "js_error option"
  getStats :: "js_error + stats_report list"
  dataChannelSend :: "js_error option"
  storageOk :: bool
  date_now :: nat

definition isWebPlatform :: "env \<Rightarrow> bool" where
  "isWebPlatform e = (platformOS e = Web)"

definition cpuUsage :: "env \<Rightarrow> jsnum" where
  "cpuUsage e = (case diagnostics e of None \<Rightarrow> Num 0 | Some d \<Rightarrow> js_div (cpu_parsed d) 100)"

text \<open>\<open>diagnostics?.ram || 0\<close>, the RAM reading of \<open>checkResources\<close>.\<close>

definition ramPressure :: "env \<Rightarrow> jsnum" where
  "ramPressure e = js_or_zero (map_option ram (diagnostics e))"

subsection \<open>Objects held by the component\<close>

datatype conn_state = StNew | StConnecting | StConnected | StDisconnected | StFailed | StClosed

text \<open>
  The peer connection, with what its callbacks (set in \<open>startWebRTC\<close>) read of
  the render that created it: the device id.
\<close>

record peer_connection =
  connectionState :: conn_state
  iceConnectionState :: conn_state
  localDescription :: "string option"
  remoteDescription :: "(string \<times> string) option"
  remoteCandidates :: "string list"
  pc_tracks :: nat
  cb_deviceId :: string

datatype dc_state = DcConnecting | DcOpen | DcClosed

text \<open>
  What the callbacks registered by the mount effect (the signaling handlers,
  the resource check, the cleanup) read of the render in which the effect ran:
  state variables and values of the diagnostics context.
\<close>

record closure =
  cl_deviceId :: string
  cl_localStream :: "media_stream option"
  cl_RTCIceCandidate :: bool
  cl_RTCSessionDescription :: bool
  cl_diagnostics :: "diagnostic_result option"
  cl_thermalWarning :: bool

record socket =
  url :: string
  reconnection :: bool
  reconnectionAttempts :: nat
  reconnectionDelay :: nat
  handlers :: closure

datatype effect =
    Alert string string
  | Speak string
  | Vibrate
  | ConsoleError string
  | LogEvent string
  | LogSession string
  | FetchPastSessions
  | StopTracks nat
  | IoConnect string
  | SocketEmit string "string list"
  | SocketDisconnect
  | HttpPost string string
  | DcSend string
  | Called string

record state =
  isConnected :: bool
  deviceId :: string
  screenShare :: bool
  iotControl :: bool
  keyboardInput :: bool
  latency :: int
  duration :: nat
  localStream :: "media_stream option"
  remoteStream :: "media_stream option"
  errorMessage :: string
  iotScenes :: "string list"
  encryptionReady :: bool
  webrtcLoaded :: bool
  RTCPeerConnection :: bool
  mediaDevices :: bool
  RTCIceCandidate :: bool
  RTCSessionDescription :: bool
  pcRef :: "peer_connection option"
  dataChannelRef :: "dc_state option"
  socketRef :: "socket option"
  timerRef :: "nat option"
  latencyIntervalRef :: "nat option"
  lastPingRef :: nat
  effectClosure :: "closure option"
  thermalCheckId :: "nat option"
  intervals :: "(nat \<times> nat) list"
  nextTimerId :: nat
  pendingRelay :: "string list"
  pendingStats :: nat
  effects :: "effect list"

text \<open>
  \<open>intervals\<close> lists the running \<open>setInterval\<close> timers as (id, period in ms);
  ids are positive, as the truthiness tests on the timer refs assume.
  \<open>effectClosure\<close> and \<open>thermalCheckId\<close> belong to the last run of the mount
  effect: what its callbacks read, and the timer of its resource check.
  \<open>pendingRelay\<close> lists the relay requests whose response has not arrived,
  \<open>pendingStats\<close> counts the latency samples waiting for their statistics.
  \<open>lastPingRef\<close> starts as the time of the mount; the clock \<open>date_now\<close> counts
  milliseconds from there.
  The \<open>bool\<close> fields named after WebRTC classes say whether the dynamically
  loaded class is non-null.
\<close>

definition perform :: "effect list \<Rightarrow> state \<Rightarrow> state" where
  "perform es s = s\<lparr>effects := effects s @ es\<rparr>"

definition setInterval :: "nat \<Rightarrow> state \<Rightarrow> nat \<times> state" where
  "setInterval period s =
     (nextTimerId s,
      s\<lparr>intervals := intervals s @ [(nextTimerId s, period)], nextTimerId := nextTimerId s + 1\<rparr>)"

definition clearInterval :: "nat \<Rightarrow> state \<Rightarrow> state" where
  "clearInterval i s = s\<lparr>intervals := filter (\<lambda>p. fst p \<noteq> i) (intervals s)\<rparr>"

text \<open>\<open>if (ref.current) clearInterval(ref.current)\<close>.\<close>

definition clear_if_set :: "nat option \<Rightarrow> state \<Rightarrow> state" where
  "clear_if_set r s = (case r of None \<Rightarrow> s | Some i \<Rightarrow> if i = 0 then s else clearInterval i s)"

definition capture :: "env \<Rightarrow> state \<Rightarrow> closure" where
  "capture e s = \<lparr>cl_deviceId = deviceId s, cl_localStream = localStream s,
                  cl_RTCIceCandidate = RTCIceCandidate s,
                  cl_RTCSessionDescription = RTCSessionDescription s,
                  cl_diagnostics = diagnostics e, cl_thermalWarning = thermalWarning e\<rparr>"

text \<open>The environment as a callback with closure \<open>cl\<close> sees it.\<close>

definition closure_env :: "closure \<Rightarrow> env \<Rightarrow> env" where
  "closure_env cl e = e\<lparr>diagnostics := cl_diagnostics cl, thermalWarning := cl_thermalWarning cl\<rparr>"

definition initial_state :: state where
  "initial_state =
     \<lparr>isConnected = False, deviceId = [], screenShare = True, iotControl = False,
      keyboardInput = True, latency = 0, duration = 0, localStream = None,
      remoteStream = None, errorMessage = [], iotScenes = [], encryptionReady = False,
      webrtcLoaded = False, RTCPeerConnection = False, mediaDevices = False,
      RTCIceCandidate = False, RTCSessionDescription = False, pcRef = None,
      dataChannelRef = None, socketRef = None, timerRef = None,
      latencyIntervalRef = None, lastPingRef = 0, effectClosure = None,
      thermalCheckId = None, intervals = [], nextTimerId = 1,
      pendingRelay = [], pendingStats = 0, effects = []\<rparr>"

subsection \<open>Resource check\<close>

definition checkResources :: "env \<Rightarrow> state \<Rightarrow> bool \<times> state" where
  "checkResources e s =
     (case getTotalRamMb e of
        Inl err \<Rightarrow> (False, perform [ConsoleError ''Resource check error:''] s)
      | Inr totalRam \<Rightarrow>
          (let ramUsage = (if js_gt totalRam 6000 then Num 0.3
                           else ramPressure e)
           in case getBatteryLevelAsync e of
                Inl err \<Rightarrow> (False, perform [ConsoleError ''Resource check error:''] s)
              | Inr batteryLevel \<Rightarrow>
                  if js_gt ramUsage 0.8 \<or> js_gt (cpuUsage e) 0.7
                     \<or> (js_lt batteryLevel 0.2 \<and> platformOS e = Android)
                  then (True,
                        perform [Alert ''Resource Limit''
                                   ''Device overloaded (RAM/CPU/Battery). Pausing.'',
                                 Vibrate] s)
                  else (False, s)))"

subsection \<open>Ending a session\<close>

definition pc_close :: "peer_connection \<Rightarrow> peer_connection" where
  "pc_close pc = pc\<lparr>connectionState := StClosed, iceConnectionState := StClosed\<rparr>"

text \<open>
  \<open>handleEndSession\<close>.  Its first argument is the \<open>localStream\<close> it reads: that
  of the render in which the function was created.
\<close>

definition handleEndSession :: "media_stream option \<Rightarrow> state \<Rightarrow> state" where
  "handleEndSession seen s =
     (let s1 = s\<lparr>pcRef := map_option pc_close (pcRef s)\<rparr>;
          s2 = s1\<lparr>dataChannelRef := map_option (\<lambda>d. DcClosed) (dataChannelRef s1)\<rparr>;
          s3 = (case seen of
                  None \<Rightarrow> s2
                | Some st \<Rightarrow> (perform [StopTracks (track_count st)] s2)\<lparr>localStream := None\<rparr>);
          s4 = s3\<lparr>remoteStream := None, isConnected := False\<rparr>;
          s5 = clear_if_set (timerRef s4) s4;
          s6 = clear_if_set (latencyIntervalRef s5) s5;
          s7 = s6\<lparr>duration := 0, latency := 0, errorMessage := []\<rparr>
      in perform [Speak ''Session ended'', LogEvent ''Session ended'', Vibrate] s7)"

subsection \<open>Encryption and signaling setup, the mount effect\<close>

definition initializeEncryption :: "state \<Rightarrow> state" where
  "initializeEncryption s =
     perform [LogEvent ''Encryption initialized'', Speak ''Encryption initialized'']
       ((perform [Called ''initializeEncryption''] s)\<lparr>encryptionReady := True\<rparr>)"

text \<open>The backend URLs, for the default \<open>SERVER_PORT\<close> 8080.\<close>

definition SIGNALING_URL :: string where
  "SIGNALING_URL = ''ws://localhost:8080''"

definition API_BASE_URL :: string where
  "API_BASE_URL = ''http://localhost:8080/api''"

text \<open>
  \<open>setupSignaling\<close>.  The handlers it registers on the new socket are the
  functions \<open>on_offer\<close>, \<open>on_ice_candidate\<close> and \<open>on_ice_failed\<close> below; the socket
  keeps what they read of the render.
\<close>

definition setupSignaling :: "env \<Rightarrow> state \<Rightarrow> state" where
  "setupSignaling e s =
     (if isWebPlatform e \<or> socketRef s = None \<or> SIGNALING_URL = [] then s
      else perform [IoConnect SIGNALING_URL]
             (s\<lparr>socketRef := Some \<lparr>url = SIGNALING_URL, reconnection = True,
                                   reconnectionAttempts = 5, reconnectionDelay = 1000,
                                   handlers = capture e s\<rparr>\<rparr>))"

text \<open>\<open>socketRef.current?.emit(name, payload)\<close>: nothing happens without a socket.\<close>

definition emit_opt :: "string \<Rightarrow> string list \<Rightarrow> state \<Rightarrow> state" where
  "emit_opt name payload s =
     (case socketRef s of None \<Rightarrow> s | Some sock \<Rightarrow> perform [SocketEmit name payload] s)"

text \<open>
  The effect that runs once the WebRTC module is loaded, and again whenever
  one of its dependencies (the diagnostics, the thermal warning, the CPU load,
  the language, the platform, the module being loaded) has changed: it starts
  the encryption setup and the signaling setup, reads the session history and
  starts the resource check of every 60000 ms.  Its callbacks read the render
  \<open>s\<close> under the diagnostics of \<open>e\<close>.
\<close>

definition mount_effect :: "env \<Rightarrow> state \<Rightarrow> state" where
  "mount_effect e s =
     (if isWebPlatform e
      then perform [Speak ''WebRTC not available on web'']
             (s\<lparr>errorMessage := ''WebRTC is only supported on native platforms (iOS/Android)''\<rparr>)
      else if \<not> webrtcLoaded s then s
      else
        (let s1 = initializeEncryption s;
             s2 = setupSignaling e s1;
             s3 = perform [FetchPastSessions] s2;
             (i, s4) = setInterval 60000 s3
         in s4\<lparr>effectClosure := Some (capture e s), thermalCheckId := Some i\<rparr>))"

text \<open>The cleanup function the effect returns, run before the effect runs again.\<close>

definition effect_cleanup :: "state \<Rightarrow> state" where
  "effect_cleanup s =
     (case effectClosure s of
        None \<Rightarrow> s
      | Some cl \<Rightarrow>
          (let s1 = (case socketRef s of None \<Rightarrow> s | Some sock \<Rightarrow> perform [SocketDisconnect] s);
               s2 = clear_if_set (timerRef s1) s1;
               s3 = clear_if_set (latencyIntervalRef s2) s2;
               s4 = (case thermalCheckId s3 of None \<Rightarrow> s3 | Some i \<Rightarrow> clearInterval i s3);
               s5 = (case cl_localStream cl of
                       None \<Rightarrow> s4
                     | Some st \<Rightarrow> perform [StopTracks (track_count st)] s4)
           in s5\<lparr>effectClosure := None, thermalCheckId := None\<rparr>))"

text \<open>
  The callback of the resource check.  The \<open>checkResources\<close> and the
  \<open>handleEndSession\<close> it calls are those of the render in which the effect ran;
  the \<open>DeviceInfo\<close> answers are those of the moment.
\<close>

definition thermalCheck :: "env \<Rightarrow> state \<Rightarrow> state" where
  "thermalCheck e s =
     (case effectClosure s of
        None \<Rightarrow> s
      | Some cl \<Rightarrow>
          (case checkResources (closure_env cl e) s of (overLimit, s1) \<Rightarrow>
             if overLimit \<or> cl_thermalWarning cl
             then perform [LogEvent ''Session paused: resource limits'',
                           Speak ''Session paused due to resource limits'', Vibrate]
                    (handleEndSession (cl_localStream cl)
                       (perform [Alert ''Resource Warning''
                                   ''Device exceeds limits (Thermal Warning, CPU >70%, RAM >80%). Pausing session.'']
                          s1))
             else s1))"

subsection \<open>Starting a session\<close>

definition new_pc :: "string \<Rightarrow> peer_connection" where
  "new_pc d = \<lparr>connectionState = StNew, iceConnectionState = StNew, localDescription = None,
               remoteDescription = None, remoteCandidates = [], pc_tracks = 0,
               cb_deviceId = d\<rparr>"

definition startWebRTC :: "env \<Rightarrow> state \<Rightarrow> state" where
  "startWebRTC e s0 =
     (let s = perform [Called ''startWebRTC''] s0 in
      if isWebPlatform e \<or> \<not> webrtcLoaded s \<or> \<not> RTCPeerConnection s \<or> \<not> mediaDevices s
      then s\<lparr>errorMessage := ''WebRTC not supported or loaded''\<rparr>
      else if \<not> encryptionReady s
      then perform [Speak ''Please wait for encryption to initialize'']
             (s\<lparr>errorMessage := ''Encryption not ready''\<rparr>)
      else
        (case checkResources e s of
           (True, s1) \<Rightarrow>
             perform [Alert ''Resource Error'' ''RAM >80% or CPU >70%. Try later.'',
                      Speak ''Device overloaded'', Vibrate]
               (s1\<lparr>errorMessage := ''Insufficient resources''\<rparr>)
         | (False, s1) \<Rightarrow>
             (let s2 = s1\<lparr>pcRef := Some (new_pc (deviceId s1))\<rparr> in
              case getUserMedia e of
                Inl err \<Rightarrow>
                  perform [Speak ''Failed to access media'', Vibrate]
                    ((perform [ConsoleError ''Stream error:''] s2)
                       \<lparr>errorMessage := ''Failed to access media''\<rparr>)
              | Inr stream \<Rightarrow>
                  (let s3 = s2\<lparr>localStream := Some stream,
                              pcRef := Some ((new_pc (deviceId s1))
                                               \<lparr>pc_tracks := track_count stream\<rparr>)\<rparr>;
                       s4 = perform [LogEvent ''Media stream acquired'',
                                     Speak ''Media stream ready''] s3;
                       s5 = (if iotControl s4 \<or> keyboardInput s4
                             then s4\<lparr>dataChannelRef := Some DcConnecting\<rparr> else s4)
                   in case createOffer e of
                        Inl err \<Rightarrow>
                          perform [Speak ''Session setup failed'', Vibrate]
                            ((perform [ConsoleError ''WebRTC setup error:''] s5)
                               \<lparr>errorMessage := ''Failed to start session''\<rparr>)
                      | Inr sdp \<Rightarrow>
                          (let s6 = s5\<lparr>pcRef := map_option (\<lambda>pc. pc\<lparr>localDescription := Some sdp\<rparr>)
                                                  (pcRef s5)\<rparr>;
                               s7 = emit_opt ''offer'' [sdp, deviceId s6] s6;
                               s8 = perform [LogEvent ''WebRTC offer sent''] s7;
                               (i1, s9) = setInterval 10000 s8;
                               s10 = s9\<lparr>latencyIntervalRef := Some i1\<rparr>;
                               (i2, s11) = setInterval 1000 s10
                           in s11\<lparr>timerRef := Some i2\<rparr>)))))"

definition logSession :: "env \<Rightarrow> string \<Rightarrow> state \<Rightarrow> bool \<times> state" where
  "logSession e clientName s =
     (if storageOk e then (True, perform [LogSession clientName] s)
      else (False, perform [ConsoleError ''Log session error:''] s))"

definition handleStartSession :: "env \<Rightarrow> state \<Rightarrow> state" where
  "handleStartSession e s =
     (if isWebPlatform e
      then perform [Alert ''Platform Error''
                      ''WebRTC is only supported on native platforms (iOS/Android)''] s
      else if isConnected s then handleEndSession (localStream s) s
      else if trim (deviceId s) = []
      then perform [Speak ''Please enter device ID'', Vibrate]
             (s\<lparr>errorMessage := ''Device ID required''\<rparr>)
      else
        (case checkResources e s of (overLimit, s1) \<Rightarrow>
           if overLimit \<or> thermalWarning e
           then perform [Alert ''Resource Warning''
                           ''Thermal warning, CPU >70%, or RAM >80%. Try later.'',
                         Speak ''Device overloaded'', Vibrate]
                  (s1\<lparr>errorMessage := ''Device overloaded''\<rparr>)
           else
             (let s2 = startWebRTC e s1;
                  s3 = s2\<lparr>isConnected := True\<rparr>;
                  (logged, s4) = logSession e (deviceId s3) s3;
                  s5 = (if logged then perform [FetchPastSessions] s4 else s4)
              in perform [Speak (''Session started with '' @ deviceId s5), Vibrate] s5)))"

subsection \<open>The peer connection object\<close>

text \<open>
  Modelled from the spec: the method \<open>setRemoteDescription\<close> of
  \<open>RTCPeerConnection\<close>, which \<open>react-native-webrtc.d.ts\<close> declares and whose code
  is in the \<open>react-native-webrtc\<close> package, not in the repository.  The
  specification has the remote description of the \<open>PeerConnectionHandle\<close> set by
  a remote offer; whether the call throws is left to the environment.
\<close>

definition pc_setRemoteDescription :: "peer_connection \<Rightarrow> string \<times> string \<Rightarrow> peer_connection" where
  "pc_setRemoteDescription pc d = pc\<lparr>remoteDescription := Some d\<rparr>"

text \<open>
  Modelled from the spec: the method \<open>addIceCandidate\<close> of \<open>RTCPeerConnection\<close>,
  declared in \<open>react-native-webrtc.d.ts\<close>, code in the \<open>react-native-webrtc\<close>
  package.  The specification: a candidate arriving before the remote
  description is set is an error condition (\<open>CandidateBeforeDescription\<close>); the
  accumulated candidates are ordered by arrival, duplicates ignored.
\<close>

definition pc_addIceCandidate :: "peer_connection \<Rightarrow> string \<Rightarrow> js_error + peer_connection" where
  "pc_addIceCandidate pc c =
     (if remoteDescription pc = None then Inl (Thrown ''CandidateBeforeDescription'')
      else if c \<in> set (remoteCandidates pc) then Inr pc
      else Inr (pc\<lparr>remoteCandidates := remoteCandidates pc @ [c]\<rparr>))"

subsection \<open>Signaling handlers\<close>

text \<open>The \<open>catch\<close> block of the \<open>offer\<close> handler.\<close>

definition offer_failed :: "state \<Rightarrow> state" where
  "offer_failed s =
     perform [Speak ''Session setup failed'']
       ((perform [ConsoleError ''Offer error:''] s)
          \<lparr>errorMessage := ''Failed to process remote offer''\<rparr>)"

text \<open>
  \<open>socketRef.current.on('offer', ...)\<close> for the message \<open>{sdp, deviceId: sender}\<close>,
  with the closure \<open>cl\<close> of the render that registered it.  The \<open>emit\<close> of the
  answer is not guarded: without a socket it throws inside the \<open>try\<close>.
\<close>

definition on_offer :: "closure \<Rightarrow> env \<Rightarrow> string \<Rightarrow> string \<Rightarrow> state \<Rightarrow> state" where
  "on_offer cl e sdp sender s =
     (case pcRef s of
        None \<Rightarrow> s
      | Some pc \<Rightarrow>
          if sender \<noteq> cl_deviceId cl \<or> \<not> cl_RTCSessionDescription cl then s
          else
            (case setRemoteDescription e of
               Some err \<Rightarrow> offer_failed s
             | None \<Rightarrow>
                 (let pc1 = pc_setRemoteDescription pc (''offer'', sdp);
                      s1 = s\<lparr>pcRef := Some pc1\<rparr> in
                  case createAnswer e of
                    Inl err \<Rightarrow> offer_failed s1
                  | Inr answer \<Rightarrow>
                      (let s2 = s1\<lparr>pcRef := Some (pc1\<lparr>localDescription := Some answer\<rparr>)\<rparr> in
                       case socketRef s2 of
                         None \<Rightarrow> offer_failed s2
                       | Some sock \<Rightarrow>
                           perform [SocketEmit ''answer'' [answer, cl_deviceId cl],
                                    LogEvent ''Offer processed''] s2))))"

text \<open>\<open>socketRef.current.on('ice-candidate', ...)\<close> for \<open>{candidate, deviceId: sender}\<close>.\<close>

definition on_ice_candidate :: "closure \<Rightarrow> string \<Rightarrow> string \<Rightarrow> state \<Rightarrow> state" where
  "on_ice_candidate cl candidate sender s =
     (case pcRef s of
        None \<Rightarrow> s
      | Some pc \<Rightarrow>
          if sender \<noteq> cl_deviceId cl \<or> \<not> cl_RTCIceCandidate cl then s
          else
            (case pc_addIceCandidate pc candidate of
               Inl err \<Rightarrow>
                 (perform [ConsoleError ''ICE candidate error:''] s)
                   \<lparr>errorMessage := ''Failed to add ICE candidate''\<rparr>
             | Inr pc1 \<Rightarrow> perform [LogEvent ''ICE candidate added''] (s\<lparr>pcRef := Some pc1\<rparr>)))"

text \<open>
  \<open>socketRef.current.on('ice_failed', ...)\<close> up to its \<open>await axios.post\<close>: the
  relay request is sent, with the device id the handler read when it was
  registered, and the handler waits for the response.
\<close>

definition on_ice_failed :: "closure \<Rightarrow> string \<Rightarrow> state \<Rightarrow> state" where
  "on_ice_failed cl room s =
     perform [HttpPost (API_BASE_URL @ ''/rustdesk/generate'') (cl_deviceId cl)]
       (s\<lparr>pendingRelay := pendingRelay s @ [room]\<rparr>)"

text \<open>The \<open>catch\<close> block of the \<open>ice_failed\<close> handler.\<close>

definition fallback_failed :: "state \<Rightarrow> state" where
  "fallback_failed s =
     (perform [ConsoleError ''Fallback error:''] s)
       \<lparr>errorMessage := ''Fallback unavailable; retry P2P''\<rparr>"

text \<open>
  The rest of the \<open>ice_failed\<close> handler, after the \<open>await\<close>: the response is
  \<open>Inr (rustdesk_id, password)\<close>, or \<open>Inl\<close> when the request failed.
\<close>

definition ice_failed_response :: "js_error + string \<times> string \<Rightarrow> state \<Rightarrow> state" where
  "ice_failed_response res s =
     (case res of
        Inl err \<Rightarrow> fallback_failed s
      | Inr (rustdesk_id, password) \<Rightarrow>
          (case socketRef s of
             None \<Rightarrow> fallback_failed s
           | Some sock \<Rightarrow>
               perform [SocketEmit ''use_rustdesk'' [rustdesk_id, password, ''localhost:8080''],
                        Alert ''P2P Failed''
                          (''Fallback to local relay: ID '' @ rustdesk_id @ '', Pass '' @ password
                             @ [CHR 0x0A] @ ''(Use in-app client)''),
                        Speak ''Switched to local relay mode'',
                        LogEvent ''RustDesk fallback activated''] s))"

text \<open>The arrival of the response of the oldest pending relay request.\<close>

definition on_relay_response :: "js_error + string \<times> string \<Rightarrow> state \<Rightarrow> state" where
  "on_relay_response res s =
     (case pendingRelay s of
        [] \<Rightarrow> s
      | room # rest \<Rightarrow> ice_failed_response res (s\<lparr>pendingRelay := rest\<rparr>))"

text \<open>
  A message from the signaling server.  Only a socket has handlers: without one
  no message reaches the component.
\<close>

datatype sock_msg =
    MsgConnect
  | MsgConnectError
  | MsgOffer string string
  | MsgIceCandidate string string
  | MsgIceFailed string

definition socket_message :: "sock_msg \<Rightarrow> env \<Rightarrow> state \<Rightarrow> state" where
  "socket_message m e s =
     (case socketRef s of
        None \<Rightarrow> s
      | Some sock \<Rightarrow>
          (case m of
             MsgConnect \<Rightarrow>
               perform [LogEvent ''Signaling connected'', Speak ''Connected to internal server''] s
           | MsgConnectError \<Rightarrow>
               perform [Speak ''Internal server connection failed'', Vibrate]
                 ((perform [ConsoleError ''Internal signaling error:''] s)
                    \<lparr>errorMessage := ''Failed to connect to internal backend (check app restart)''\<rparr>)
           | MsgOffer sdp sender \<Rightarrow> on_offer (handlers sock) e sdp sender s
           | MsgIceCandidate candidate sender \<Rightarrow> on_ice_candidate (handlers sock) candidate sender s
           | MsgIceFailed room \<Rightarrow> on_ice_failed (handlers sock) room s))"

subsection \<open>Peer connection callbacks and timers\<close>

text \<open>\<open>pc.onconnectionstatechange\<close>, reading the state the connection is in.\<close>

definition pc_onconnectionstatechange :: "env \<Rightarrow> state \<Rightarrow> state" where
  "pc_onconnectionstatechange e s =
     (case pcRef s of
        None \<Rightarrow> s
      | Some pc \<Rightarrow>
          if connectionState pc = StFailed \<and> int (date_now e) - int (lastPingRef s) > 2000
          then perform [Speak ''Connection lag detected. Falling back.'',
                        LogEvent ''ICE failed; fallback triggered'']
                 (emit_opt ''ice_failed'' [cb_deviceId pc] s)
          else if connectionState pc = StConnected
          then perform [Speak ''Connection established''] s
          else if connectionState pc = StDisconnected
          then perform [Speak ''Connection lost''] s
          else s)"

text \<open>\<open>pc.oniceconnectionstatechange\<close>.\<close>

definition pc_oniceconnectionstatechange :: "state \<Rightarrow> state" where
  "pc_oniceconnectionstatechange s =
     (case pcRef s of
        None \<Rightarrow> s
      | Some pc \<Rightarrow>
          if iceConnectionState pc = StFailed then emit_opt ''ice_failed'' [cb_deviceId pc] s
          else s)"

text \<open>
  The library moves the connection to a new state and calls the callback; a
  failure of the transport moves both states and calls both callbacks.
\<close>

definition connection_state_event :: "conn_state \<Rightarrow> env \<Rightarrow> state \<Rightarrow> state" where
  "connection_state_event st e s =
     pc_onconnectionstatechange e
       (s\<lparr>pcRef := map_option (\<lambda>pc. pc\<lparr>connectionState := st\<rparr>) (pcRef s)\<rparr>)"

definition ice_connection_state_event :: "conn_state \<Rightarrow> state \<Rightarrow> state" where
  "ice_connection_state_event st s =
     pc_oniceconnectionstatechange
       (s\<lparr>pcRef := map_option (\<lambda>pc. pc\<lparr>iceConnectionState := st\<rparr>) (pcRef s)\<rparr>)"

text \<open>\<open>pc.onicecandidate\<close> for a gathered candidate, and \<open>pc.ontrack\<close>.\<close>

definition pc_onicecandidate :: "string \<Rightarrow> state \<Rightarrow> state" where
  "pc_onicecandidate candidate s =
     (case pcRef s of
        None \<Rightarrow> s
      | Some pc \<Rightarrow>
          perform [LogEvent ''ICE candidate sent'']
            (emit_opt ''ice-candidate'' [candidate, cb_deviceId pc] s))"

definition pc_ontrack :: "media_stream \<Rightarrow> state \<Rightarrow> state" where
  "pc_ontrack remote s =
     (case pcRef s of
        None \<Rightarrow> s
      | Some pc \<Rightarrow>
          perform [LogEvent ''Remote stream received'', Speak ''Remote screen connected'']
            (s\<lparr>remoteStream := Some remote\<rparr>))"

text \<open>
  \<open>report.currentRoundTripTime * 1000 || 0\<close>: the product of two doubles; an
  absent time gives \<open>NaN\<close>, then \<open>0\<close>.
\<close>

definition rtt_of :: "stats_report \<Rightarrow> real" where
  "rtt_of r = (case currentRoundTripTime r of
                 None \<Rightarrow> 0
               | Some t \<Rightarrow> to_double (to_double t * 1000))"

text \<open>\<open>report.type === 'candidate-pair' && report.state === 'succeeded'\<close>.\<close>

definition succeeded_pair :: "stats_report \<Rightarrow> bool" where
  "succeeded_pair r = (report_type r = ''candidate-pair'' \<and> report_state r = ''succeeded'')"

text \<open>The body of \<open>stats.forEach\<close> in the latency interval.\<close>

definition latency_report :: "env \<Rightarrow> state \<Rightarrow> stats_report \<Rightarrow> state" where
  "latency_report e s r =
     (if succeeded_pair r
      then s\<lparr>latency := Math_round (rtt_of r), lastPingRef := date_now e\<rparr>
      else s)"

text \<open>
  The callback of the latency interval (period 10000 ms), from the arrival of
  the result of \<open>getStats\<close> on.
\<close>

definition latency_tick :: "env \<Rightarrow> state \<Rightarrow> state" where
  "latency_tick e s =
     (case getStats e of
        Inl err \<Rightarrow> perform [ConsoleError ''Latency check error:''] s
      | Inr reports \<Rightarrow> foldl (latency_report e) s reports)"

text \<open>One run of the duration interval callback (period 1000 ms).\<close>

definition duration_tick :: "state \<Rightarrow> state" where
  "duration_tick s = s\<lparr>duration := duration s + 1\<rparr>"

subsection \<open>The control channel and the remaining inputs of the screen\<close>

definition sendControlCommand :: "env \<Rightarrow> string \<Rightarrow> state \<Rightarrow> state" where
  "sendControlCommand e command s =
     (if dataChannelRef s \<noteq> Some DcOpen
      then perform [Speak ''Control channel not ready'']
             (s\<lparr>errorMessage := ''Control channel not ready''\<rparr>)
      else
        (case dataChannelSend e of
           Some err \<Rightarrow>
             perform [Speak ''Command failed'']
               ((perform [ConsoleError ''Command error:''] s)
                  \<lparr>errorMessage := ''Failed to send command''\<rparr>)
         | None \<Rightarrow>
             perform [DcSend command, LogEvent ''Control command sent'',
                      Speak (''Sent command: '' @ command)] s))"

text \<open>\<open>handleIoTCommand\<close>: the action is \<open>command.split(':')[1]\<close>.\<close>

definition handleIoTCommand :: "string \<Rightarrow> state \<Rightarrow> state" where
  "handleIoTCommand command s =
     (if take 4 command = ''iot:''
      then (let action = takeWhile (\<lambda>c. c \<noteq> CHR '':'') (drop 4 command)
            in perform [Speak (''IoT action: '' @ action), LogEvent ''IoT command processed'']
                 (s\<lparr>iotScenes := iotScenes s @ [action]\<rparr>))
      else s)"

text \<open>
  The callbacks of the data channel: \<open>onopen\<close>, \<open>onmessage\<close>, \<open>onclose\<close>,
  \<open>onerror\<close>.
\<close>

definition dc_onopen :: "state \<Rightarrow> state" where
  "dc_onopen s =
     (case dataChannelRef s of
        None \<Rightarrow> s
      | Some d \<Rightarrow>
          perform [LogEvent ''Data channel opened'', Speak ''Control channel ready'']
            (s\<lparr>dataChannelRef := Some DcOpen\<rparr>))"

definition dc_onmessage :: "string \<Rightarrow> state \<Rightarrow> state" where
  "dc_onmessage d s =
     (case dataChannelRef s of
        None \<Rightarrow> s
      | Some dc \<Rightarrow> perform [Speak (''Received command: '' @ d)] (handleIoTCommand d s))"

definition dc_onclose :: "state \<Rightarrow> state" where
  "dc_onclose s =
     (case dataChannelRef s of
        None \<Rightarrow> s
      | Some d \<Rightarrow> perform [LogEvent ''Data channel closed''] (s\<lparr>dataChannelRef := Some DcClosed\<rparr>))"

definition dc_onerror :: "state \<Rightarrow> state" where
  "dc_onerror s =
     (case dataChannelRef s of
        None \<Rightarrow> s
      | Some d \<Rightarrow> (perform [ConsoleError ''Data channel error:''] s)
                    \<lparr>errorMessage := ''Control channel error''\<rparr>)"

text \<open>
  The effect that loads the WebRTC module.  On a native platform \<open>ok\<close> says
  whether the dynamic import succeeded; on the web, whether the browser has an
  \<open>RTCPeerConnection\<close> class.
\<close>

definition loadWebRTC :: "bool \<Rightarrow> env \<Rightarrow> state \<Rightarrow> state" where
  "loadWebRTC ok e s =
     (if isWebPlatform e then s\<lparr>RTCPeerConnection := ok, webrtcLoaded := True\<rparr>
      else if ok
      then s\<lparr>RTCPeerConnection := True, mediaDevices := True, RTCIceCandidate := True,
             RTCSessionDescription := True, webrtcLoaded := True\<rparr>
      else perform [Speak ''WebRTC not available'', Vibrate]
             ((perform [ConsoleError ''Dynamic WebRTC load failed:''] s)
                \<lparr>errorMessage := ''WebRTC unavailable on this device''\<rparr>))"

definition handleBarCodeScanned :: "string \<Rightarrow> state \<Rightarrow> state" where
  "handleBarCodeScanned d s =
     (if trim d = []
      then perform [Speak ''Invalid QR code scanned'', Vibrate]
             (s\<lparr>errorMessage := ''Invalid QR code''\<rparr>)
      else perform [Speak (''Device ID set to '' @ d), LogEvent ''QR code scanned'', Vibrate]
             (s\<lparr>deviceId := trim d\<rparr>))"

subsection \<open>Runs of the screen\<close>

text \<open>
  Everything that can happen to the mounted screen: the module load, a run of
  the mount effect, the unmount, the inputs of the user, a timer that fires,
  a callback of the peer connection or of the data channel, a message from the
  signaling server, the response to a relay request.  A timer fires only while it is
  running, and statistics arrive only for a sample that waits for them.
\<close>

datatype event =
    LoadWebRTC bool
  | RunEffect
  | Unmount
  | ChangeDeviceId string
  | ScanCode string
  | ToggleScreenShare
  | ToggleIotControl
  | ToggleKeyboardInput
  | DismissError
  | PressStart
  | SendCommand string
  | ThermalTimer
  | DurationTimer
  | LatencyTimer
  | StatsResult
  | ConnectionStateChange conn_state
  | IceConnectionStateChange conn_state
  | LocalCandidate string
  | RemoteTrack media_stream
  | DataChannelOpen
  | DataChannelMessage string
  | DataChannelClose
  | DataChannelError
  | FromSocket sock_msg
  | RelayResponse "js_error + string \<times> string"

definition timer_running :: "nat \<Rightarrow> state \<Rightarrow> bool" where
  "timer_running period s = (period \<in> set (map snd (intervals s)))"

fun step :: "event \<Rightarrow> env \<Rightarrow> state \<Rightarrow> state" where
  "step (LoadWebRTC ok) e s = loadWebRTC ok e s"
| "step RunEffect e s = mount_effect e (effect_cleanup s)"
| "step Unmount e s = effect_cleanup s"
| "step (ChangeDeviceId d) e s = s\<lparr>deviceId := d\<rparr>"
| "step (ScanCode d) e s = handleBarCodeScanned d s"
| "step ToggleScreenShare e s = s\<lparr>screenShare := \<not> screenShare s\<rparr>"
| "step ToggleIotControl e s = s\<lparr>iotControl := \<not> iotControl s\<rparr>"
| "step ToggleKeyboardInput e s = s\<lparr>keyboardInput := \<not> keyboardInput s\<rparr>"
| "step DismissError e s = s\<lparr>errorMessage := []\<rparr>"
| "step PressStart e s = handleStartSession e s"
| "step (SendCommand c) e s = sendControlCommand e c s"
| "step ThermalTimer e s = (if timer_running 60000 s then thermalCheck e s else s)"
| "step DurationTimer e s = (if timer_running 1000 s then duration_tick s else s)"
| "step LatencyTimer e s =
     (if timer_running 10000 s then s\<lparr>pendingStats := pendingStats s + 1\<rparr> else s)"
| "step StatsResult e s =
     (if pendingStats s = 0 then s
      else latency_tick e (s\<lparr>pendingStats := pendingStats s - 1\<rparr>))"
| "step (ConnectionStateChange st) e s = connection_state_event st e s"
| "step (IceConnectionStateChange st) e s = ice_connection_state_event st s"
| "step (LocalCandidate c) e s = pc_onicecandidate c s"
| "step (RemoteTrack st) e s = pc_ontrack st s"
| "step DataChannelOpen e s = dc_onopen s"
| "step (DataChannelMessage d) e s = dc_onmessage d s"
| "step DataChannelClose e s = dc_onclose s"
| "step DataChannelError e s = dc_onerror s"
| "step (FromSocket m) e s = socket_message m e s"
| "step (RelayResponse res) e s = on_relay_response res s"

text \<open>A run: the events in order, each with what the platform answers during it.\<close>

definition run :: "(event \<times> env) list \<Rightarrow> state \<Rightarrow> state" where
  "run evs s = foldl (\<lambda>t p. step (fst p) (snd p) t) s evs"

subsection \<open>The mock key encapsulation\<close>

text \<open>
  \<open>ml_kem5\<close> of \<open>kyber.ts\<close>.  A JavaScript string is the list of its UTF-16 code
  units and a \<open>Uint8Array\<close> the list of its bytes, both as natural numbers.
  \<open>TextEncoder\<close> and \<open>TextDecoder\<close> belong to the platform; they are taken as
  the Encoding Standard defines them for UTF-8: the encoder first replaces
  every unpaired surrogate by U+FFFD; the decoder replaces every malformed
  sequence by U+FFFD and, with the default \<open>ignoreBOM = false\<close>, removes a
  leading U+FEFF.  A mask \<open>byte & (2^k - 1)\<close> is written \<open>byte mod 2^k\<close>.
\<close>

definition is_high :: "nat \<Rightarrow> bool" where
  "is_high u = (0xD800 \<le> u \<and> u \<le> 0xDBFF)"

definition is_low :: "nat \<Rightarrow> bool" where
  "is_low u = (0xDC00 \<le> u \<and> u \<le> 0xDFFF)"

definition pair_cp :: "nat \<Rightarrow> nat \<Rightarrow> nat" where
  "pair_cp u v = 0x10000 + (u - 0xD800) * 0x400 + (v - 0xDC00)"

text \<open>Code units to scalar values.\<close>

fun to_scalars :: "nat list \<Rightarrow> nat list" where
  "to_scalars [] = []"
| "to_scalars [u] = [if is_high u \<or> is_low u then 0xFFFD else u]"
| "to_scalars (u # v # us) =
     (if is_high u \<and> is_low v
      then pair_cp u v # to_scalars us
      else if is_high u \<or> is_low u then 0xFFFD # to_scalars (v # us)
      else u # to_scalars (v # us))"

definition utf8_encode_cp :: "nat \<Rightarrow> nat list" where
  "utf8_encode_cp c =
     (if c < 0x80 then [c]
      else if c < 0x800 then [0xC0 + c div 64, 0x80 + c mod 64]
      else if c < 0x10000 then [0xE0 + c div 4096, 0x80 + (c div 64) mod 64, 0x80 + c mod 64]
      else [0xF0 + c div 262144, 0x80 + (c div 4096) mod 64, 0x80 + (c div 64) mod 64,
            0x80 + c mod 64])"

definition TextEncoder_encode :: "nat list \<Rightarrow> nat list" where
  "TextEncoder_encode s = concat (map utf8_encode_cp (to_scalars s))"

text \<open>
  The UTF-8 decoder: the code point collected so far, the number of
  continuation bytes still needed, and the bounds of the next byte.  A byte
  outside the bounds ends the sequence with U+FFFD and is read again as the
  start of the next one.
\<close>

function utf8_decode :: "nat \<Rightarrow> nat \<Rightarrow> nat \<Rightarrow> nat \<Rightarrow> nat list \<Rightarrow> nat list" where
  "utf8_decode cp needed lo hi [] = (if needed = 0 then [] else [0xFFFD])"
| "utf8_decode cp needed lo hi (b # bs) =
     (if needed = 0 then
        (if b < 0x80 then b # utf8_decode 0 0 0x80 0xBF bs
         else if 0xC2 \<le> b \<and> b \<le> 0xDF then utf8_decode (b mod 32) 1 0x80 0xBF bs
         else if 0xE0 \<le> b \<and> b \<le> 0xEF
         then utf8_decode (b mod 16) 2 (if b = 0xE0 then 0xA0 else 0x80)
                (if b = 0xED then 0x9F else 0xBF) bs
         else if 0xF0 \<le> b \<and> b \<le> 0xF4
         then utf8_decode (b mod 8) 3 (if b = 0xF0 then 0x90 else 0x80)
                (if b = 0xF4 then 0x8F else 0xBF) bs
         else 0xFFFD # utf8_decode 0 0 0x80 0xBF bs)
      else if b < lo \<or> hi < b then 0xFFFD # utf8_decode 0 0 0x80 0xBF (b # bs)
      else if needed = 1 then (cp * 64 + b mod 64) # utf8_decode 0 0 0x80 0xBF bs
      else utf8_decode (cp * 64 + b mod 64) (needed - 1) 0x80 0xBF bs)"
  by pat_completeness auto
termination
  by (relation "measure (\<lambda>(cp, needed, lo, hi, bs). 2 * length bs + (if needed = 0 then 0 else 1))")
     auto

definition strip_bom :: "nat list \<Rightarrow> nat list" where
  "strip_bom cs = (case cs of [] \<Rightarrow> [] | c # rest \<Rightarrow> if c = 0xFEFF then rest else cs)"

definition utf16_units :: "nat \<Rightarrow> nat list" where
  "utf16_units c =
     (if c < 0x10000 then [c]
      else [0xD800 + (c - 0x10000) div 0x400, 0xDC00 + (c - 0x10000) mod 0x400])"

definition TextDecoder_decode :: "nat list \<Rightarrow> nat list" where
  "TextDecoder_decode bs = concat (map utf16_units (strip_bom (utf8_decode 0 0 0x80 0xBF bs)))"

record keypair =
  publicKey :: "nat list"
  secretKey :: "nat list"

record encapsulation =
  ciphertext :: "nat list"

definition keygen :: "nat list \<Rightarrow> keypair" where
  "keygen seed = \<lparr>publicKey = replicate 32 1, secretKey = replicate 32 2\<rparr>"

definition encap :: "nat list \<Rightarrow> nat list \<Rightarrow> encapsulation" where
  "encap pk data = \<lparr>ciphertext = TextEncoder_encode data\<rparr>"

definition decap :: "nat list \<Rightarrow> nat list \<Rightarrow> nat list" where
  "decap sk ct = TextDecoder_decode ct"

subsection \<open>Observations on a state and on a string\<close>

text \<open>The relay requests sent so far: the POSTs to \<open>/rustdesk/generate\<close>.\<close>

fun is_relay_post :: "effect \<Rightarrow> bool" where
  "is_relay_post (HttpPost u d) = (u = API_BASE_URL @ ''/rustdesk/generate'')"
| "is_relay_post _ = False"

definition relay_requests :: "state \<Rightarrow> nat" where
  "relay_requests s = length (filter is_relay_post (effects s))"

text \<open>Every use of the signaling socket: the connection and the messages sent.\<close>

fun is_socket_effect :: "effect \<Rightarrow> bool" where
  "is_socket_effect (IoConnect u) = True"
| "is_socket_effect (SocketEmit n p) = True"
| "is_socket_effect SocketDisconnect = True"
| "is_socket_effect _ = False"

text \<open>A state of a screen that has never had a signaling socket.\<close>

definition offline :: "state \<Rightarrow> bool" where
  "offline s = (socketRef s = None \<and> pendingRelay s = []
                \<and> filter is_socket_effect (effects s) = []
                \<and> filter is_relay_post (effects s) = [])"



text \<open>A Unicode scalar value: a code point that is not a surrogate.\<close>

definition scalar :: "nat \<Rightarrow> bool" where
  "scalar c = (c < 0x110000 \<and> (c < 0xD800 \<or> 0xDFFF < c))"

text \<open>
  A well-formed string: 16-bit code units, every high surrogate followed by a
  low one and no low surrogate elsewhere.
\<close>

fun well_formed :: "nat list \<Rightarrow> bool" where
  "well_formed [] = True"
| "well_formed [u] = (u < 0x10000 \<and> \<not> is_high u \<and> \<not> is_low u)"
| "well_formed (u # v # us) =
     (if is_high u then is_low v \<and> well_formed us
      else u < 0x10000 \<and> \<not> is_low u \<and> well_formed (v # us))"

definition starts_with_bom :: "nat list \<Rightarrow> bool" where
  "starts_with_bom s = (case s of [] \<Rightarrow> False | u # us \<Rightarrow> u = 0xFEFF)"

subsection \<open>Sample inputs\<close>

text \<open>
  An Android device with 4 GB of RAM, light load, and a transport whose only
  succeeded candidate pair reports a round-trip time of 85 ms.
\<close>

definition native_env :: env where
  "native_env =
     \<lparr>platformOS = Android,
      diagnostics = Some \<lparr>ram = Num 0.1, cpu_parsed = Num 20\<rparr>,
      thermalWarning = False,
      getTotalRamMb = Inr (Num 4096),
      getBatteryLevelAsync = Inr (Num 0.9),
      getUserMedia = Inr \<lparr>track_count = 2\<rparr>,
      createOffer = Inr ''offer-sdp'',
      createAnswer = Inr ''answer-sdp'',
      setRemoteDescription = None,
      getStats = Inr [\<lparr>report_type = ''candidate-pair'', report_state = ''succeeded'',
                       currentRoundTripTime = Some 0.085\<rparr>],
      dataChannelSend = None,
      storageOk = True,
      date_now = 100000\<rparr>"

text \<open>The screen after the WebRTC module and the encryption are ready, device id entered.\<close>

definition ready_state :: state where
  "ready_state =
     initial_state\<lparr>deviceId := ''dev-42'', encryptionReady := True, webrtcLoaded := True,
       RTCPeerConnection := True, mediaDevices := True, RTCIceCandidate := True,
       RTCSessionDescription := True\<rparr>"

text \<open>The same device under a CPU load of 90 percent.\<close>

definition overloaded_env :: env where
  "overloaded_env = native_env\<lparr>diagnostics := Some \<lparr>ram = Num 0.1, cpu_parsed = Num 90\<rparr>\<rparr>"

text \<open>A device with 8 GB of RAM whose RAM reading is 95 percent.\<close>

definition big_ram_env :: env where
  "big_ram_env = native_env\<lparr>getTotalRamMb := Inr (Num 8192),
                             diagnostics := Some \<lparr>ram = Num 0.95, cpu_parsed = Num 20\<rparr>\<rparr>"

text \<open>The screen once the WebRTC module is loaded, before the mount effect has run.\<close>

definition loaded_state :: state where
  "loaded_state =
     initial_state\<lparr>webrtcLoaded := True, RTCPeerConnection := True, mediaDevices := True,
       RTCIceCandidate := True, RTCSessionDescription := True\<rparr>"

text \<open>
  The run from the mount of the screen to a started session: the module
  loads, the mount effect runs, the user types the device id and presses the
  start button.
\<close>

definition start_run :: "(event \<times> env) list" where
  "start_run = [(LoadWebRTC True, native_env), (RunEffect, native_env),
                (ChangeDeviceId ''dev-42'', native_env), (PressStart, native_env)]"

definition started_state :: state where
  "started_state = run start_run initial_state"




text \<open>A succeeded candidate pair with the given round-trip time in seconds.\<close>

definition pair_report :: "real \<Rightarrow> stats_report" where
  "pair_report t = \<lparr>report_type = ''candidate-pair'', report_state = ''succeeded'',
                     currentRoundTripTime = Some t\<rparr>"


section \<open>Properties\<close>

subsection \<open>Helper lemmas\<close>

lemma trim_empty_iff: "trim s = [] \<longleftrightarrow> (\<forall>c\<in>set s. is_ws c)"
proof -
  have "set s = set (takeWhile is_ws s) \<union> set (dropWhile is_ws s)"
    by (metis set_append takeWhile_dropWhile_id)
  then show ?thesis
    by (auto simp: trim_def dropWhile_eq_Nil_conv dest: set_takeWhileD)
qed

lemma checkResources_calls:
  "count_list (effects (snd (checkResources e s))) (Called n) = count_list (effects s) (Called n)"
  by (simp add: checkResources_def perform_def Let_def split: sum.splits)

lemma checkResources_fields:
  "isConnected (snd (checkResources e s)) = isConnected s"
  "pcRef (snd (checkResources e s)) = pcRef s"
  by (simp_all add: checkResources_def perform_def Let_def split: sum.splits)

lemma checkResources_timers:
  "nextTimerId (snd (checkResources e s)) = nextTimerId s"
  "intervals (snd (checkResources e s)) = intervals s"
  by (simp_all add: checkResources_def perform_def Let_def split: sum.splits)

lemmas dbl_defs = to_double_def round_half_even_def pow2_def ilog2_def

lemmas sample_defs =
  native_env_def overloaded_env_def big_ram_env_def ready_state_def initial_state_def
  loaded_state_def

lemmas start_defs =
  handleStartSession_def startWebRTC_def checkResources_def logSession_def setInterval_def
  emit_opt_def new_pc_def perform_def cpuUsage_def ramPressure_def isWebPlatform_def
  trim_def is_ws_def Let_def dbl_defs

lemmas mount_defs =
  loadWebRTC_def mount_effect_def effect_cleanup_def setupSignaling_def
  initializeEncryption_def capture_def

text \<open>The started session of the sample run, field by field.\<close>

lemma started_state_eq:
  "started_state =
     \<lparr>isConnected = True, deviceId = ''dev-42'', screenShare = True, iotControl = False,
      keyboardInput = True, latency = 0, duration = 0,
      localStream = Some \<lparr>track_count = 2\<rparr>, remoteStream = None, errorMessage = [],
      iotScenes = [], encryptionReady = True, webrtcLoaded = True, RTCPeerConnection = True,
      mediaDevices = True, RTCIceCandidate = True, RTCSessionDescription = True,
      pcRef = Some \<lparr>connectionState = StNew, iceConnectionState = StNew,
                     localDescription = Some ''offer-sdp'', remoteDescription = None,
                     remoteCandidates = [], pc_tracks = 2, cb_deviceId = ''dev-42''\<rparr>,
      dataChannelRef = Some DcConnecting, socketRef = None,
      timerRef = Some 3, latencyIntervalRef = Some 2, lastPingRef = 0,
      effectClosure = Some \<lparr>cl_deviceId = [], cl_localStream = None,
                             cl_RTCIceCandidate = True, cl_RTCSessionDescription = True,
                             cl_diagnostics = Some \<lparr>ram = Num 0.1, cpu_parsed = Num 20\<rparr>,
                             cl_thermalWarning = False\<rparr>,
      thermalCheckId = Some 1,
      intervals = [(1, 60000), (2, 10000), (3, 1000)], nextTimerId = 4,
      pendingRelay = [], pendingStats = 0,
      effects = [Called ''initializeEncryption'', LogEvent ''Encryption initialized'',
                 Speak ''Encryption initialized'', FetchPastSessions,
                 Called ''startWebRTC'', LogEvent ''Media stream acquired'',
                 Speak ''Media stream ready'', LogEvent ''WebRTC offer sent'',
                 LogSession ''dev-42'', FetchPastSessions,
                 Speak ''Session started with dev-42'', Vibrate]\<rparr>"
  by (simp add: started_state_def start_run_def run_def sample_defs start_defs mount_defs)

lemmas latency_defs =
  latency_tick_def latency_report_def succeeded_pair_def pair_report_def rtt_of_def
  Math_round_def dbl_defs

subsection \<open>C1: resource gate\<close>

text \<open>
  C1 as stated fails on three inputs.  On a device that reports more than
  6000 MB of RAM, \<open>checkResources\<close> replaces the RAM reading by 0.3, so a RAM
  pressure of 0.95 is admitted and the start enters \<open>startWebRTC\<close>.  When a
  \<open>DeviceInfo\<close> query throws, \<open>checkResources\<close> answers "not over the limit"
  whatever the CPU load is.  And \<open>checkResources\<close> does not read the thermal
  warning: the callers add it.
\<close>

theorem C1_counterexample:
  "js_gt (ramPressure big_ram_env) 0.8
   \<and> \<not> fst (checkResources big_ram_env ready_state)
   \<and> Called ''startWebRTC'' \<in> set (effects (handleStartSession big_ram_env ready_state))
   \<and> isConnected (handleStartSession big_ram_env ready_state)
   \<and> js_gt (cpuUsage overloaded_env) 0.7
   \<and> \<not> fst (checkResources (overloaded_env\<lparr>getBatteryLevelAsync := Inl (Thrown ''TypeError'')\<rparr>)
              ready_state)
   \<and> \<not> fst (checkResources (native_env\<lparr>thermalWarning := True\<rparr>) ready_state)"
  by (simp add: sample_defs start_defs)

text \<open>
  C1, amended.  When both \<open>DeviceInfo\<close> queries answer, a CPU load above 0.7,
  or a RAM pressure above 0.8 on a device reporting at most 6000 MB of RAM,
  makes \<open>checkResources\<close> answer "over the limit".  A start request (native
  platform, no session connected, device id not blank) made when
  \<open>checkResources\<close> answers "over the limit", or under a thermal warning
  whatever \<open>checkResources\<close> and the \<open>DeviceInfo\<close> queries answer, ends with the
  message "Device overloaded", not connected, without a peer connection being
  created and without \<open>startWebRTC\<close> being entered.
\<close>

theorem C1_resource_limit:
  "(getTotalRamMb e = Inr totalRam \<and> getBatteryLevelAsync e = Inr batteryLevel
      \<and> (js_gt (cpuUsage e) 0.7 \<or> (\<not> js_gt totalRam 6000 \<and> js_gt (ramPressure e) 0.8))
     \<longrightarrow> fst (checkResources e s))
   \<and> (\<not> isWebPlatform e \<and> \<not> isConnected s \<and> trim (deviceId s) \<noteq> []
        \<and> (fst (checkResources e s) \<or> thermalWarning e)
     \<longrightarrow> errorMessage (handleStartSession e s) = ''Device overloaded''
         \<and> \<not> isConnected (handleStartSession e s)
         \<and> pcRef (handleStartSession e s) = pcRef s
         \<and> count_list (effects (handleStartSession e s)) (Called ''startWebRTC'')
             = count_list (effects s) (Called ''startWebRTC''))"
proof (intro conjI impI)
  assume "getTotalRamMb e = Inr totalRam \<and> getBatteryLevelAsync e = Inr batteryLevel
      \<and> (js_gt (cpuUsage e) 0.7 \<or> (\<not> js_gt totalRam 6000 \<and> js_gt (ramPressure e) 0.8))"
  then show "fst (checkResources e s)"
    by (auto simp: checkResources_def Let_def)
next
  assume a: "\<not> isWebPlatform e \<and> \<not> isConnected s \<and> trim (deviceId s) \<noteq> []
        \<and> (fst (checkResources e s) \<or> thermalWarning e)"
  obtain b s1 where cr: "checkResources e s = (b, s1)"
    by (cases "checkResources e s")
  from a cr have rej: "b \<or> thermalWarning e"
    by auto
  have s1: "isConnected s1 = isConnected s" "pcRef s1 = pcRef s"
    "count_list (effects s1) (Called ''startWebRTC'') = count_list (effects s) (Called ''startWebRTC'')"
    using checkResources_fields[of e s] checkResources_calls[of e s "''startWebRTC''"] cr
    by simp_all
  have eq: "handleStartSession e s =
          perform [Alert ''Resource Warning''
                     ''Thermal warning, CPU >70%, or RAM >80%. Try later.'',
                   Speak ''Device overloaded'', Vibrate]
            (s1\<lparr>errorMessage := ''Device overloaded''\<rparr>)"
    using a rej cr by (auto simp: handleStartSession_def)
  from eq show "errorMessage (handleStartSession e s) = ''Device overloaded''"
    by (simp add: perform_def)
  from eq s1 a show "\<not> isConnected (handleStartSession e s)"
    by (simp add: perform_def)
  from eq s1 show "pcRef (handleStartSession e s) = pcRef s"
    by (simp add: perform_def)
  from eq s1 show "count_list (effects (handleStartSession e s)) (Called ''startWebRTC'')
             = count_list (effects s) (Called ''startWebRTC'')"
    by (simp add: perform_def)
qed

text \<open>
  The amended claim at a CPU load of 90 percent, and at a thermal warning on a
  device whose \<open>DeviceInfo\<close> queries throw.
\<close>

theorem C1_resource_limit_witness:
  "js_gt (cpuUsage overloaded_env) 0.7
   \<and> fst (checkResources overloaded_env ready_state)
   \<and> errorMessage (handleStartSession overloaded_env ready_state) = ''Device overloaded''
   \<and> \<not> isConnected (handleStartSession overloaded_env ready_state)
   \<and> pcRef (handleStartSession overloaded_env ready_state) = None
   \<and> count_list (effects (handleStartSession overloaded_env ready_state)) (Called ''startWebRTC'') = 0
   \<and> errorMessage (handleStartSession
        (native_env\<lparr>thermalWarning := True, getTotalRamMb := Inl (Thrown ''TypeError'')\<rparr>)
        ready_state) = ''Device overloaded''
   \<and> \<not> isConnected (handleStartSession
        (native_env\<lparr>thermalWarning := True, getTotalRamMb := Inl (Thrown ''TypeError'')\<rparr>)
        ready_state)
   \<and> count_list (effects (handleStartSession
        (native_env\<lparr>thermalWarning := True, getTotalRamMb := Inl (Thrown ''TypeError'')\<rparr>)
        ready_state)) (Called ''startWebRTC'') = 0"
  using C1_resource_limit [of overloaded_env "Num 4096" "Num 0.9" ready_state]
    C1_resource_limit
      [of "native_env\<lparr>thermalWarning := True, getTotalRamMb := Inl (Thrown ''TypeError'')\<rparr>"
          _ _ ready_state]
  by (simp add: sample_defs cpuUsage_def isWebPlatform_def trim_def is_ws_def dbl_defs)

subsection \<open>C2: start before the encryption is ready\<close>

text \<open>
  C2 at a concrete start: device id \<open>dev-42\<close>, resources fine, WebRTC loaded,
  \<open>encryptionReady\<close> still false.  \<open>startWebRTC\<close> stops at its encryption check
  (message "Encryption not ready", no peer connection, no offer, no timers),
  but \<open>handleStartSession\<close> goes on after the call: the session is marked
  connected and written to the session history.
\<close>

theorem C2_start_before_encryption_ready:
  "errorMessage (handleStartSession native_env (ready_state\<lparr>encryptionReady := False\<rparr>))
     = ''Encryption not ready''
   \<and> pcRef (handleStartSession native_env (ready_state\<lparr>encryptionReady := False\<rparr>)) = None
   \<and> intervals (handleStartSession native_env (ready_state\<lparr>encryptionReady := False\<rparr>)) = []
   \<and> isConnected (handleStartSession native_env (ready_state\<lparr>encryptionReady := False\<rparr>))
   \<and> LogSession ''dev-42''
       \<in> set (effects (handleStartSession native_env (ready_state\<lparr>encryptionReady := False\<rparr>)))"
  by (simp add: sample_defs start_defs)

subsection \<open>C3: missing device id\<close>

text \<open>
  C3 as stated fails on the web platform: \<open>handleStartSession\<close> tests the
  platform first, so a start with an empty device id ends with the alert
  "Platform Error" and the message "Device ID required" is never set.
\<close>

theorem C3_counterexample:
  "trim (deviceId initial_state) = []
   \<and> errorMessage (handleStartSession (native_env\<lparr>platformOS := Web\<rparr>) initial_state)
       \<noteq> ''Device ID required''
   \<and> effects (handleStartSession (native_env\<lparr>platformOS := Web\<rparr>) initial_state)
       = [Alert ''Platform Error''
            ''WebRTC is only supported on native platforms (iOS/Android)'']"
  by (simp add: sample_defs start_defs)

text \<open>
  C3, amended.  On a native platform, a start request made while no session
  is connected, with a device id that is empty or all whitespace, only sets the
  message "Device ID required" (with its speech and vibration); nothing else of
  the state changes, and the number of calls of \<open>initializeEncryption\<close> stays
  what it was.
\<close>

theorem C3_missing_device_id:
  assumes "\<not> isWebPlatform e" and "\<not> isConnected s" and "\<forall>c\<in>set (deviceId s). is_ws c"
  shows "handleStartSession e s =
           perform [Speak ''Please enter device ID'', Vibrate]
             (s\<lparr>errorMessage := ''Device ID required''\<rparr>)
         \<and> count_list (effects (handleStartSession e s)) (Called ''initializeEncryption'')
             = count_list (effects s) (Called ''initializeEncryption'')"
  using assms by (simp add: handleStartSession_def trim_empty_iff perform_def)

theorem C3_missing_device_id_witness:
  "handleStartSession native_env (initial_state\<lparr>deviceId := ''  ''\<rparr>) =
     perform [Speak ''Please enter device ID'', Vibrate]
       (initial_state\<lparr>deviceId := ''  '', errorMessage := ''Device ID required''\<rparr>)
   \<and> count_list (effects (handleStartSession native_env (initial_state\<lparr>deviceId := ''  ''\<rparr>)))
        (Called ''initializeEncryption'') = 0"
  using C3_missing_device_id [of native_env "initial_state\<lparr>deviceId := ''  ''\<rparr>"]
  by (simp add: sample_defs isWebPlatform_def is_ws_def perform_def)


subsection \<open>C4: relay requests per failed event\<close>

text \<open>
  No run of the screen gives it a signaling socket: the property \<open>offline\<close>
  holds when the screen is mounted and every handler keeps it.
\<close>

lemma offline_perform:
  "offline s \<Longrightarrow> \<forall>x\<in>set es. \<not> is_socket_effect x \<and> \<not> is_relay_post x \<Longrightarrow> offline (perform es s)"
  by (simp add: offline_def perform_def)

lemma offline_checkResources: "offline s \<Longrightarrow> offline (snd (checkResources e s))"
  by (simp add: checkResources_def offline_def perform_def Let_def split: sum.splits)

lemma offline_clear_if_set: "offline s \<Longrightarrow> offline (clear_if_set r s)"
  by (simp add: clear_if_set_def clearInterval_def offline_def split: option.splits)

lemma offline_handleEndSession: "offline s \<Longrightarrow> offline (handleEndSession seen s)"
proof -
  assume a: "offline s"
  have upd: "\<And>t f. offline t \<Longrightarrow> offline (t\<lparr>pcRef := f\<rparr>)"
    "\<And>t f. offline t \<Longrightarrow> offline (t\<lparr>dataChannelRef := f\<rparr>)"
    "\<And>t f. offline t \<Longrightarrow> offline (t\<lparr>localStream := f\<rparr>)"
    "\<And>t. offline t \<Longrightarrow> offline (t\<lparr>remoteStream := None, isConnected := False\<rparr>)"
    "\<And>t. offline t \<Longrightarrow> offline (t\<lparr>duration := 0, latency := 0, errorMessage := []\<rparr>)"
    by (simp_all add: offline_def)
  show ?thesis
    unfolding handleEndSession_def Let_def
    by (cases seen) (simp_all add: a upd offline_clear_if_set offline_perform)
qed

lemma offline_startWebRTC: "offline s \<Longrightarrow> offline (startWebRTC e s)"
proof -
  assume a: "offline s"
  let ?s = "perform [Called ''startWebRTC''] s"
  have s: "offline ?s"
    using a by (simp add: offline_perform)
  obtain b s1 where cr: "checkResources e ?s = (b, s1)"
    by (cases "checkResources e ?s")
  have s1: "offline s1"
    using offline_checkResources [OF s, of e] cr by simp
  show ?thesis
    using s s1 cr
    by (simp add: startWebRTC_def Let_def offline_def perform_def emit_opt_def setInterval_def
          split: sum.splits bool.splits)
qed

lemma offline_handleStartSession: "offline s \<Longrightarrow> offline (handleStartSession e s)"
proof -
  assume a: "offline s"
  obtain b s1 where cr: "checkResources e s = (b, s1)"
    by (cases "checkResources e s")
  have s1: "offline s1"
    using offline_checkResources [OF a, of e] cr by simp
  have s2: "offline (startWebRTC e s1)"
    by (rule offline_startWebRTC [OF s1])
  have upd: "\<And>t. offline t \<Longrightarrow> offline (t\<lparr>isConnected := True\<rparr>)"
    "\<And>t m. offline t \<Longrightarrow> offline (t\<lparr>errorMessage := m\<rparr>)"
    by (simp_all add: offline_def)
  have lg: "\<And>t n. offline t \<Longrightarrow> offline (snd (logSession e n t))"
    by (simp add: logSession_def offline_perform)
  show ?thesis
    unfolding handleStartSession_def Let_def
    using a s1 s2 cr
    by (auto simp: upd lg offline_perform offline_handleEndSession split: prod.splits
          dest: lg [of _ _] intro!: offline_perform
          simp: logSession_def)
qed

lemma offline_mount_effect: "offline s \<Longrightarrow> offline (mount_effect e s)"
  by (simp add: mount_effect_def initializeEncryption_def setupSignaling_def setInterval_def
        offline_def perform_def Let_def)

lemma offline_effect_cleanup: "offline s \<Longrightarrow> offline (effect_cleanup s)"
  by (simp add: effect_cleanup_def offline_def perform_def Let_def clear_if_set_def
        clearInterval_def split: option.splits)

lemma offline_thermalCheck: "offline s \<Longrightarrow> offline (thermalCheck e s)"
proof (cases "effectClosure s")
  case None
  then show "offline s \<Longrightarrow> offline (thermalCheck e s)"
    by (simp add: thermalCheck_def)
next
  case (Some cl)
  assume a: "offline s"
  obtain b s1 where cr: "checkResources (closure_env cl e) s = (b, s1)"
    by (cases "checkResources (closure_env cl e) s")
  have s1: "offline s1"
    using offline_checkResources [OF a, of "closure_env cl e"] cr by simp
  show "offline (thermalCheck e s)"
    using Some cr s1
    by (simp add: thermalCheck_def offline_perform offline_handleEndSession)
qed

lemma offline_latency_tick: "offline s \<Longrightarrow> offline (latency_tick e s)"
proof -
  have fold: "\<And>t. offline t \<Longrightarrow> offline (foldl (latency_report e) t rs)" for rs
    by (induction rs) (simp_all add: latency_report_def offline_def)
  show "offline s \<Longrightarrow> offline (latency_tick e s)"
    by (simp add: latency_tick_def offline_perform fold split: sum.splits)
qed

lemma offline_callbacks:
  assumes "offline s"
  shows "offline (connection_state_event st e s)"
    and "offline (ice_connection_state_event st s)"
    and "offline (pc_onicecandidate c s)"
    and "offline (pc_ontrack r s)"
    and "offline (dc_onopen s)"
    and "offline (dc_onmessage d s)"
    and "offline (dc_onclose s)"
    and "offline (dc_onerror s)"
    and "offline (sendControlCommand e c s)"
    and "offline (loadWebRTC ok e s)"
    and "offline (handleBarCodeScanned d s)"
    and "offline (duration_tick s)"
    and "offline (socket_message m e s)"
    and "offline (on_relay_response res s)"
  using assms
  by (simp_all add: connection_state_event_def pc_onconnectionstatechange_def
        ice_connection_state_event_def pc_oniceconnectionstatechange_def pc_onicecandidate_def
        pc_ontrack_def dc_onopen_def dc_onmessage_def dc_onclose_def dc_onerror_def
        handleIoTCommand_def sendControlCommand_def loadWebRTC_def handleBarCodeScanned_def
        duration_tick_def socket_message_def on_relay_response_def emit_opt_def
        offline_def perform_def Let_def split: option.splits)

lemma offline_step: "offline s \<Longrightarrow> offline (step ev e s)"
proof (cases ev)
  case LatencyTimer
  assume "offline s"
  then show ?thesis using LatencyTimer by (simp add: offline_def)
next
  case StatsResult
  assume a: "offline s"
  then have "offline (s\<lparr>pendingStats := pendingStats s - 1\<rparr>)"
    by (simp add: offline_def)
  then show ?thesis using StatsResult a by (simp add: offline_latency_tick)
qed (simp_all add: offline_callbacks offline_handleStartSession offline_mount_effect
       offline_effect_cleanup offline_thermalCheck, simp_all add: offline_def)

lemma offline_run: "offline s \<Longrightarrow> offline (run evs s)"
  unfolding run_def
  by (induction evs arbitrary: s) (simp_all add: offline_step)

lemma offline_initial: "offline initial_state"
  by (simp add: offline_def initial_state_def)

text \<open>
  C4.  In every run of the screen from its mount, whatever events arrive and
  in whatever order (among them any number of changes of the connection state
  or of the ICE connection state to "failed"), no relay request is sent and
  none is waiting for its response.  So at most one request is issued per
  failed transition, and a second failed event before a relay response issues
  no second request.
\<close>

theorem C4_relay_requests:
  "relay_requests (run evs initial_state) = 0 \<and> pendingRelay (run evs initial_state) = []"
  using offline_run [OF offline_initial, of evs]
  by (simp add: offline_def relay_requests_def)

text \<open>
  The started session of the sample run after two failed events in a row, the
  first more than 2000 ms after the last ping.
\<close>

theorem C4_relay_requests_witness:
  "relay_requests (run (start_run @ [(ConnectionStateChange StFailed, native_env),
                                     (IceConnectionStateChange StFailed, native_env)])
                     initial_state) = 0
   \<and> Speak ''Connection lag detected. Falling back.''
       \<in> set (effects (run (start_run @ [(ConnectionStateChange StFailed, native_env),
                                         (IceConnectionStateChange StFailed, native_env)])
                         initial_state))"
proof -
  have "run (start_run @ [(ConnectionStateChange StFailed, native_env),
                          (IceConnectionStateChange StFailed, native_env)]) initial_state
        = step (IceConnectionStateChange StFailed) native_env
            (step (ConnectionStateChange StFailed) native_env started_state)"
    by (simp add: run_def started_state_def)
  then show ?thesis
    using C4_relay_requests
            [of "start_run @ [(ConnectionStateChange StFailed, native_env),
                              (IceConnectionStateChange StFailed, native_env)]"]
    by (simp add: started_state_eq connection_state_event_def pc_onconnectionstatechange_def
          ice_connection_state_event_def pc_oniceconnectionstatechange_def emit_opt_def
          perform_def native_env_def)
qed


subsection \<open>C5: outcome of the fallback\<close>


subsection \<open>C6: the signaling connection\<close>

text \<open>
  \<open>setupSignaling\<close> returns at once when the socket ref is empty, and nothing
  else fills the ref.
\<close>

lemma setupSignaling_no_socket: "socketRef s = None \<Longrightarrow> setupSignaling e s = s"
  by (simp add: setupSignaling_def)

text \<open>
  C6 at the concrete mount of the screen on a native platform with WebRTC
  loaded: the mount effect runs \<open>setupSignaling\<close> with the socket ref still
  empty, so no connection to the signaling endpoint is made, with or without
  reconnection options.  A session started afterwards is marked connected
  although the socket ref is still empty, and its offer is never sent.
\<close>

theorem C6_signaling_never_connects:
  "socketRef (mount_effect native_env loaded_state) = None
   \<and> filter is_socket_effect (effects (mount_effect native_env loaded_state)) = []
   \<and> encryptionReady (mount_effect native_env loaded_state)
   \<and> isConnected (handleStartSession native_env
        ((mount_effect native_env loaded_state)\<lparr>deviceId := ''dev-42''\<rparr>))
   \<and> socketRef (handleStartSession native_env
        ((mount_effect native_env loaded_state)\<lparr>deviceId := ''dev-42''\<rparr>)) = None
   \<and> filter is_socket_effect (effects (handleStartSession native_env
        ((mount_effect native_env loaded_state)\<lparr>deviceId := ''dev-42''\<rparr>))) = []"
  by (simp add: mount_defs sample_defs start_defs)

subsection \<open>C7: a candidate before the remote description\<close>




subsection \<open>C8: ending a session\<close>












subsection \<open>C9: latency sampling\<close>

lemma latency_report_fields:
  "isConnected (latency_report e s r) = isConnected s"
  "pcRef (latency_report e s r) = pcRef s"
  "intervals (latency_report e s r) = intervals s"
  "latency (latency_report e s r) =
     (if succeeded_pair r then Math_round (rtt_of r) else latency s)"
  by (simp_all add: latency_report_def)

lemma latency_fold_fields:
  "isConnected (foldl (latency_report e) s rs) = isConnected s
   \<and> pcRef (foldl (latency_report e) s rs) = pcRef s
   \<and> intervals (foldl (latency_report e) s rs) = intervals s"
  by (induction rs arbitrary: s) (simp_all add: latency_report_fields)

lemma latency_fold:
  "latency (foldl (latency_report e) s rs) =
     (case filter succeeded_pair rs of
        [] \<Rightarrow> latency s
      | p # ps \<Rightarrow> Math_round (rtt_of (last (p # ps))))"
proof (induction rs rule: rev_induct)
  case Nil
  then show ?case by simp
next
  case (snoc r rs)
  then show ?case
    by (simp add: latency_report_fields split: list.splits)
qed

lemma startWebRTC_latency_interval:
  assumes "\<not> isWebPlatform e" "webrtcLoaded s" "RTCPeerConnection s" "mediaDevices s"
    "encryptionReady s" "\<not> fst (checkResources e s)" "getUserMedia e = Inr st"
    "createOffer e = Inr sdp"
  shows "latencyIntervalRef (startWebRTC e s) = Some (nextTimerId s)
       \<and> (nextTimerId s, 10000) \<in> set (intervals (startWebRTC e s))"
proof -
  let ?s0 = "perform [Called ''startWebRTC''] s"
  obtain b s1 where cr: "checkResources e ?s0 = (b, s1)"
    by (cases "checkResources e ?s0")
  have "fst (checkResources e ?s0) = fst (checkResources e s)"
    by (simp add: checkResources_def perform_def Let_def split: sum.splits)
  with assms(6) cr have b: "\<not> b"
    by simp
  have s1: "nextTimerId s1 = nextTimerId s" "intervals s1 = intervals s"
    using checkResources_timers [of e ?s0] cr by (simp_all add: perform_def)
  show ?thesis
    using assms(1-5,7,8) cr b s1
    by (cases "socketRef s1")
       (simp_all add: startWebRTC_def perform_def Let_def setInterval_def emit_opt_def)
qed

text \<open>
  C9 as stated fails on "the first succeeded candidate pair": the callback
  walks through all reports and every succeeded pair overwrites the latency,
  so with pairs of 85 ms and 120 ms, in this order, the latency of the started
  session becomes 120.
\<close>

theorem C9_counterexample:
  "latency (latency_tick
             (native_env\<lparr>getStats := Inr [pair_report 0.085, pair_report 0.120]\<rparr>)
             started_state) = 120
   \<and> Math_round (rtt_of (pair_report 0.085)) = 85"
  by (simp add: started_state_eq native_env_def latency_defs)

text \<open>
  C9, amended.  A start that gets through \<open>startWebRTC\<close> registers the latency
  callback as a timer of 10000 ms.  A run of the callback whose statistics
  arrive sets the latency to the round-trip time of the last succeeded
  candidate pair of the report list, in milliseconds (the double product of the
  time in seconds and 1000, rounded to the nearest integer, halves upwards),
  and leaves it unchanged when there is none; a sample of 85 ms alone makes the
  latency 85.  A run whose statistics fail leaves the latency unchanged.  No
  run changes \<open>isConnected\<close>, the peer connection or the timers.
\<close>

theorem C9_latency_sampling:
  "(getStats e = Inr rs \<longrightarrow>
      latency (latency_tick e s) =
        (case filter succeeded_pair rs of
           [] \<Rightarrow> latency s
         | p # ps \<Rightarrow> Math_round (rtt_of (last (p # ps)))))
   \<and> (getStats e = Inl err \<longrightarrow> latency (latency_tick e s) = latency s)
   \<and> isConnected (latency_tick e s) = isConnected s
   \<and> pcRef (latency_tick e s) = pcRef s
   \<and> intervals (latency_tick e s) = intervals s
   \<and> (\<not> isWebPlatform e \<and> webrtcLoaded s \<and> RTCPeerConnection s \<and> mediaDevices s
        \<and> encryptionReady s \<and> \<not> fst (checkResources e s)
        \<and> getUserMedia e = Inr st \<and> createOffer e = Inr sdp
      \<longrightarrow> latencyIntervalRef (startWebRTC e s) = Some (nextTimerId s)
          \<and> (nextTimerId s, 10000) \<in> set (intervals (startWebRTC e s)))
   \<and> Math_round (rtt_of (pair_report 0.085)) = 85"
proof -
  have "Math_round (rtt_of (pair_report 0.085)) = 85"
    by (simp add: latency_defs)
  then show ?thesis
    using startWebRTC_latency_interval [of e s st sdp]
    by (cases "getStats e")
       (simp_all add: latency_tick_def latency_fold latency_fold_fields perform_def)
qed

text \<open>
  The amended claim at the started session of the sample run: a sample of
  85 ms, a failed sample, samples of 4.5 ms and of 500.5 ms, and the timer a
  start registers.
\<close>

theorem C9_latency_sampling_witness:
  "latency (latency_tick native_env started_state) = 85
   \<and> isConnected (latency_tick native_env started_state)
   \<and> latency (latency_tick (native_env\<lparr>getStats := Inl (Thrown ''InvalidStateError'')\<rparr>)
                (started_state\<lparr>latency := 85\<rparr>)) = 85
   \<and> latency (latency_tick (native_env\<lparr>getStats := Inr [pair_report 0.0045]\<rparr>)
                started_state) = 5
   \<and> latency (latency_tick (native_env\<lparr>getStats := Inr [pair_report 0.5005]\<rparr>)
                started_state) = 500
   \<and> latencyIntervalRef (startWebRTC native_env ready_state) = Some 1
   \<and> (1, 10000) \<in> set (intervals (startWebRTC native_env ready_state))"
  using C9_latency_sampling
          [of native_env "[pair_report 0.085]" started_state _ "\<lparr>track_count = 2\<rparr>" "''offer-sdp''"]
        C9_latency_sampling
          [of "native_env\<lparr>getStats := Inl (Thrown ''InvalidStateError'')\<rparr>" _
              "started_state\<lparr>latency := 85\<rparr>" "Thrown ''InvalidStateError''"]
        C9_latency_sampling
          [of "native_env\<lparr>getStats := Inr [pair_report 0.0045]\<rparr>" "[pair_report 0.0045]"
              started_state]
        C9_latency_sampling
          [of "native_env\<lparr>getStats := Inr [pair_report 0.5005]\<rparr>" "[pair_report 0.5005]"
              started_state]
        C9_latency_sampling
          [of native_env _ ready_state _ "\<lparr>track_count = 2\<rparr>" "''offer-sdp''"]
  by (simp add: started_state_eq sample_defs pair_report_def succeeded_pair_def rtt_of_def
        Math_round_def isWebPlatform_def checkResources_def cpuUsage_def ramPressure_def
        dbl_defs)

subsection \<open>C10: the mock encapsulation round trip\<close>

lemma mod_offset: "x < n \<Longrightarrow> (k * n + x) mod n = (x::nat)"
  by simp

lemma cont_byte: "m < 64 \<Longrightarrow> (0x80 + m) mod 64 = (m::nat)"
  using mod_offset [of m 64 2] by simp

text \<open>The steps of the decoder on a well-placed byte.\<close>

lemma lead1:
  "b < 0x80 \<Longrightarrow> utf8_decode 0 0 0x80 0xBF (b # bs) = b # utf8_decode 0 0 0x80 0xBF bs"
  by simp

lemma lead2:
  "0xC2 \<le> b \<Longrightarrow> b \<le> 0xDF \<Longrightarrow>
     utf8_decode 0 0 0x80 0xBF (b # bs) = utf8_decode (b mod 32) 1 0x80 0xBF bs"
  by simp

lemma lead3:
  "0xE0 \<le> b \<Longrightarrow> b \<le> 0xEF \<Longrightarrow>
     utf8_decode 0 0 0x80 0xBF (b # bs) =
       utf8_decode (b mod 16) 2 (if b = 0xE0 then 0xA0 else 0x80)
         (if b = 0xED then 0x9F else 0xBF) bs"
  by simp

lemma lead4:
  "0xF0 \<le> b \<Longrightarrow> b \<le> 0xF4 \<Longrightarrow>
     utf8_decode 0 0 0x80 0xBF (b # bs) =
       utf8_decode (b mod 8) 3 (if b = 0xF0 then 0x90 else 0x80)
         (if b = 0xF4 then 0x8F else 0xBF) bs"
  by simp

lemma cont_last:
  "lo \<le> b \<Longrightarrow> b \<le> hi \<Longrightarrow>
     utf8_decode cp 1 lo hi (b # bs) = (cp * 64 + b mod 64) # utf8_decode 0 0 0x80 0xBF bs"
  by simp

lemma cont_more2:
  "lo \<le> b \<Longrightarrow> b \<le> hi \<Longrightarrow>
     utf8_decode cp 2 lo hi (b # bs) = utf8_decode (cp * 64 + b mod 64) 1 0x80 0xBF bs"
  by simp

lemma cont_more3:
  "lo \<le> b \<Longrightarrow> b \<le> hi \<Longrightarrow>
     utf8_decode cp 3 lo hi (b # bs) = utf8_decode (cp * 64 + b mod 64) 2 0x80 0xBF bs"
  by simp

declare utf8_decode.simps [simp del]

text \<open>A code point in base 64.\<close>

lemma split3: "c = 4096 * (c div 4096) + 64 * ((c div 64) mod 64) + c mod (64::nat)"
proof -
  have "c div 4096 = (c div 64) div 64"
    by (simp add: div_mult2_eq)
  then have "64 * (c div 4096) + (c div 64) mod 64 = c div 64"
    by simp
  then have "64 * (64 * (c div 4096) + (c div 64) mod 64) + c mod 64 = c"
    by simp
  then show ?thesis by simp
qed

lemma split4:
  "c = 262144 * (c div 262144) + 4096 * ((c div 4096) mod 64) + 64 * ((c div 64) mod 64)
         + c mod (64::nat)"
proof -
  have "c div 262144 = (c div 4096) div 64"
    by (simp add: div_mult2_eq)
  then have "64 * (c div 262144) + (c div 4096) mod 64 = c div 4096"
    by simp
  then have "4096 * (64 * (c div 262144) + (c div 4096) mod 64) = 4096 * (c div 4096)"
    by simp
  with split3 [of c] show ?thesis by simp
qed

text \<open>Decoding the bytes of one scalar value gives the value back.\<close>

lemma dec1:
  assumes "c < 0x80"
  shows "utf8_decode 0 0 0x80 0xBF (utf8_encode_cp c @ rest) = c # utf8_decode 0 0 0x80 0xBF rest"
  using assms by (simp add: utf8_encode_cp_def lead1)

lemma dec2:
  assumes "0x80 \<le> c" "c < 0x800"
  shows "utf8_decode 0 0 0x80 0xBF (utf8_encode_cp c @ rest) = c # utf8_decode 0 0 0x80 0xBF rest"
proof -
  define d where "d = c div 64"
  define m where "m = c mod 64"
  have c: "c = 64 * d + m" and m: "m < 64"
    by (simp_all add: d_def m_def)
  from assms c m have d: "2 \<le> d" "d < 32"
    by arith+
  have b1: "(0xC0 + d) mod 32 = d"
    using d mod_offset [of d 32 6] by simp
  have enc: "utf8_encode_cp c = [0xC0 + d, 0x80 + m]"
    using assms by (simp add: utf8_encode_cp_def d_def m_def)
  have "utf8_decode 0 0 0x80 0xBF ((0xC0 + d) # (0x80 + m) # rest)
          = utf8_decode d 1 0x80 0xBF ((0x80 + m) # rest)"
    using d lead2 [of "0xC0 + d" "(0x80 + m) # rest"] by (simp add: b1)
  also have "\<dots> = (d * 64 + m) # utf8_decode 0 0 0x80 0xBF rest"
    using m cont_last [of "0x80" "0x80 + m" "0xBF" d rest] by (simp add: cont_byte)
  finally show ?thesis
    unfolding enc using c by simp
qed

lemma dec3:
  assumes "0x800 \<le> c" "c < 0x10000" "c < 0xD800 \<or> 0xDFFF < c"
  shows "utf8_decode 0 0 0x80 0xBF (utf8_encode_cp c @ rest) = c # utf8_decode 0 0 0x80 0xBF rest"
proof -
  define a where "a = c div 4096"
  define b where "b = (c div 64) mod 64"
  define m where "m = c mod 64"
  have c: "c = 4096 * a + 64 * b + m" and m: "m < 64" and b: "b < 64"
    using split3 [of c] by (simp_all add: a_def b_def m_def)
  from assms c m b have a: "a < 16"
    by arith
  from assms c m b have lo: "a = 0 \<longrightarrow> 32 \<le> b"
    by arith
  from assms c m b have hi: "a = 13 \<longrightarrow> b < 32"
    by arith
  have b1: "(0xE0 + a) mod 16 = a"
    using a mod_offset [of a 16 14] by simp
  have enc: "utf8_encode_cp c = [0xE0 + a, 0x80 + b, 0x80 + m]"
    using assms by (simp add: utf8_encode_cp_def a_def b_def m_def)
  let ?lo = "if 0xE0 + a = (0xE0::nat) then 0xA0 else (0x80::nat)"
  let ?hi = "if 0xE0 + a = (0xED::nat) then 0x9F else (0xBF::nat)"
  have "utf8_decode 0 0 0x80 0xBF ((0xE0 + a) # (0x80 + b) # (0x80 + m) # rest)
          = utf8_decode a 2 ?lo ?hi ((0x80 + b) # (0x80 + m) # rest)"
    using a lead3 [of "0xE0 + a" "(0x80 + b) # (0x80 + m) # rest"] by (simp add: b1)
  also have "\<dots> = utf8_decode (a * 64 + b) 1 0x80 0xBF ((0x80 + m) # rest)"
  proof -
    have rng: "?lo \<le> 0x80 + b" "0x80 + b \<le> ?hi"
      using b lo hi by auto
    show ?thesis
      using cont_more2 [OF rng, of a "(0x80 + m) # rest"] b by (simp only: cont_byte)
  qed
  also have "\<dots> = ((a * 64 + b) * 64 + m) # utf8_decode 0 0 0x80 0xBF rest"
    using m cont_last [of "0x80" "0x80 + m" "0xBF" "a * 64 + b" rest] by (simp add: cont_byte)
  finally show ?thesis
    unfolding enc using c by simp
qed

lemma dec4:
  assumes "0x10000 \<le> c" "c < 0x110000"
  shows "utf8_decode 0 0 0x80 0xBF (utf8_encode_cp c @ rest) = c # utf8_decode 0 0 0x80 0xBF rest"
proof -
  define z where "z = c div 262144"
  define a where "a = (c div 4096) mod 64"
  define b where "b = (c div 64) mod 64"
  define m where "m = c mod 64"
  have c: "c = 262144 * z + 4096 * a + 64 * b + m" and m: "m < 64" and b: "b < 64"
    and a: "a < 64"
    using split4 [of c] by (simp_all add: z_def a_def b_def m_def)
  from assms c m b a have z: "z < 5"
    by arith
  from assms c m b a have lo: "z = 0 \<longrightarrow> 16 \<le> a"
    by arith
  from assms c m b a have hi: "z = 4 \<longrightarrow> a < 16"
    by arith
  have b1: "(0xF0 + z) mod 8 = z"
    using z mod_offset [of z 8 30] by simp
  have enc: "utf8_encode_cp c = [0xF0 + z, 0x80 + a, 0x80 + b, 0x80 + m]"
    using assms by (simp add: utf8_encode_cp_def z_def a_def b_def m_def)
  let ?lo = "if 0xF0 + z = (0xF0::nat) then 0x90 else (0x80::nat)"
  let ?hi = "if 0xF0 + z = (0xF4::nat) then 0x8F else (0xBF::nat)"
  have "utf8_decode 0 0 0x80 0xBF ((0xF0 + z) # (0x80 + a) # (0x80 + b) # (0x80 + m) # rest)
          = utf8_decode z 3 ?lo ?hi ((0x80 + a) # (0x80 + b) # (0x80 + m) # rest)"
    using z lead4 [of "0xF0 + z" "(0x80 + a) # (0x80 + b) # (0x80 + m) # rest"]
    by (simp add: b1)
  also have "\<dots> = utf8_decode (z * 64 + a) 2 0x80 0xBF ((0x80 + b) # (0x80 + m) # rest)"
  proof -
    have rng: "?lo \<le> 0x80 + a" "0x80 + a \<le> ?hi"
      using a lo hi by auto
    show ?thesis
      using cont_more3 [OF rng, of z "(0x80 + b) # (0x80 + m) # rest"] a
      by (simp only: cont_byte)
  qed
  also have "\<dots> = utf8_decode ((z * 64 + a) * 64 + b) 1 0x80 0xBF ((0x80 + m) # rest)"
    using b cont_more2 [of "0x80" "0x80 + b" "0xBF" "z * 64 + a" "(0x80 + m) # rest"]
    by (simp add: cont_byte)
  also have "\<dots> = (((z * 64 + a) * 64 + b) * 64 + m) # utf8_decode 0 0 0x80 0xBF rest"
    using m cont_last [of "0x80" "0x80 + m" "0xBF" "(z * 64 + a) * 64 + b" rest]
    by (simp add: cont_byte)
  finally show ?thesis
    unfolding enc using c by simp
qed

lemma decode_encode_cp:
  "scalar c \<Longrightarrow>
     utf8_decode 0 0 0x80 0xBF (utf8_encode_cp c @ rest) = c # utf8_decode 0 0 0x80 0xBF rest"
  using dec1 [of c rest] dec2 [of c rest] dec3 [of c rest] dec4 [of c rest]
  by (cases "c < 0x80"; cases "c < 0x800"; cases "c < 0x10000") (simp_all add: scalar_def)

lemma decode_encode:
  "\<forall>c\<in>set cs. scalar c \<Longrightarrow> utf8_decode 0 0 0x80 0xBF (concat (map utf8_encode_cp cs)) = cs"
  by (induction cs) (simp_all add: decode_encode_cp utf8_decode.simps)

text \<open>From code units to scalar values and back.\<close>

lemma pair_scalar:
  assumes "is_high u" "is_low v"
  shows "scalar (pair_cp u v)"
  using assms unfolding is_high_def is_low_def scalar_def pair_cp_def by arith

lemma pair_units:
  assumes "is_high u" "is_low v"
  shows "utf16_units (pair_cp u v) = [u, v]"
proof -
  define h where "h = u - 0xD800"
  define l where "l = v - 0xDC00"
  have u: "u = 0xD800 + h" and v: "v = 0xDC00 + l"
    using assms by (simp_all add: h_def l_def is_high_def is_low_def)
  have l: "l < 0x400"
    using assms unfolding l_def is_low_def by arith
  have "(h * 0x400 + l) div 0x400 = h" "(h * 0x400 + l) mod 0x400 = l"
    using l by simp_all
  then show ?thesis
    by (simp add: utf16_units_def pair_cp_def u v)
qed

lemma single_scalar:
  "u < 0x10000 \<Longrightarrow> \<not> is_high u \<Longrightarrow> \<not> is_low u \<Longrightarrow> scalar u"
  unfolding is_high_def is_low_def scalar_def by arith

lemma single_units: "u < 0x10000 \<Longrightarrow> utf16_units u = [u]"
  by (simp add: utf16_units_def)

lemma to_scalars_scalar: "well_formed s \<Longrightarrow> \<forall>c\<in>set (to_scalars s). scalar c"
  by (induction s rule: to_scalars.induct)
     (auto simp: pair_scalar single_scalar split: if_splits)

lemma units_of_scalars: "well_formed s \<Longrightarrow> concat (map utf16_units (to_scalars s)) = s"
  by (induction s rule: to_scalars.induct)
     (auto simp: pair_units single_units split: if_splits)

lemma well_formed_tl: "well_formed (u # us) \<Longrightarrow> \<not> is_high u \<Longrightarrow> well_formed us"
  by (cases us) (simp_all split: if_splits)

lemma pair_not_bom: "pair_cp u v \<noteq> 0xFEFF"
  by (simp add: pair_cp_def)

lemma bom_not_surrogate: "\<not> is_high 0xFEFF" "\<not> is_low 0xFEFF"
  by (simp_all add: is_high_def is_low_def)

lemma strip_bom_scalars:
  "strip_bom (to_scalars s) = to_scalars (if starts_with_bom s then tl s else s)"
proof (cases s rule: to_scalars.cases)
  case 1
  then show ?thesis by (simp add: strip_bom_def starts_with_bom_def)
next
  case (2 u)
  then show ?thesis
    by (auto simp: strip_bom_def starts_with_bom_def bom_not_surrogate)
next
  case (3 u v us)
  then show ?thesis
    by (auto simp: strip_bom_def starts_with_bom_def bom_not_surrogate pair_not_bom)
qed

lemmas kem_defs =
  keygen_def encap_def decap_def TextDecoder_decode_def TextEncoder_encode_def
  utf8_encode_cp_def utf8_decode.simps is_high_def is_low_def pair_cp_def strip_bom_def
  utf16_units_def starts_with_bom_def

text \<open>
  C10 as stated fails on two strings.  The string of U+FEFF and "a" comes
  back as "a" alone: the decoder takes the leading U+FEFF for a byte order
  mark.  The string of the single unpaired surrogate D800 comes back as
  U+FFFD.
\<close>

theorem C10_counterexample:
  "decap (secretKey (keygen [7, 7]))
     (ciphertext (encap (publicKey (keygen [7, 7])) [0xFEFF, 0x61])) = [0x61]
   \<and> decap (secretKey (keygen [7, 7]))
       (ciphertext (encap (publicKey (keygen [7, 7])) [0xD800])) = [0xFFFD]"
  by (simp add: kem_defs)

text \<open>
  C10, amended.  For every seed and every well-formed string (16-bit code
  units, no unpaired surrogate), decapsulating the encapsulated string with the
  generated keys returns the string, less a leading U+FEFF if it has one.
\<close>

theorem C10_roundtrip:
  assumes "well_formed s"
  shows "decap (secretKey (keygen seed)) (ciphertext (encap (publicKey (keygen seed)) s))
           = (if starts_with_bom s then tl s else s)"
proof -
  let ?r = "if starts_with_bom s then tl s else s"
  have wf: "well_formed ?r"
  proof (cases "starts_with_bom s")
    case True
    then obtain us where s: "s = 0xFEFF # us"
      by (cases s) (simp_all add: starts_with_bom_def)
    with assms have "well_formed us"
      using well_formed_tl bom_not_surrogate(1) by blast
    with True s show ?thesis by simp
  next
    case False
    with assms show ?thesis by simp
  qed
  have "utf8_decode 0 0 0x80 0xBF (TextEncoder_encode s) = to_scalars s"
    using decode_encode [OF to_scalars_scalar [OF assms]] by (simp add: TextEncoder_encode_def)
  then have "TextDecoder_decode (TextEncoder_encode s) = concat (map utf16_units (to_scalars ?r))"
    using strip_bom_scalars [of s] by (simp add: TextDecoder_decode_def)
  also have "\<dots> = ?r"
    by (rule units_of_scalars [OF wf])
  finally show ?thesis
    by (simp add: decap_def encap_def)
qed

theorem C10_roundtrip_witness:
  "decap (secretKey (keygen [7, 7]))
     (ciphertext (encap (publicKey (keygen [7, 7])) [0x61, 0xE9, 0x20AC, 0xD83D, 0xDE00]))
     = [0x61, 0xE9, 0x20AC, 0xD83D, 0xDE00]"
  using C10_roundtrip [of "[0x61, 0xE9, 0x20AC, 0xD83D, 0xDE00]" "[7, 7]"]
  by (simp add: is_high_def is_low_def starts_with_bom_def)

end
